theory Spec2Isabelle
  imports Complex_Main
begin

section \<open>BOING: a shallow embedding of the simulation core of BOING.py\<close>

text \<open>
  Python floats are modelled as \<^typ>\<open>real\<close> (exact arithmetic, no rounding, no
  infinities or NaN) and Python ints as \<^typ>\<open>int\<close>.  Randomness, the clock and the
  event queue are inputs of the functions that read them.  Mutation of an object is a
  function returning the updated record.
\<close>

subsection \<open>Configuration constants\<close>

definition WIDTH :: int where "WIDTH = 900"
definition HEIGHT :: int where "HEIGHT = 600"
definition FPS :: int where "FPS = 144"

definition PADDLE_WIDTH :: int where "PADDLE_WIDTH = 12"
definition PADDLE_HEIGHT :: int where "PADDLE_HEIGHT = 100"
definition PADDLE_SPEED :: real where "PADDLE_SPEED = 360"

definition BALL_SIZE :: int where "BALL_SIZE = 14"
definition BALL_SPEED_START :: real where "BALL_SPEED_START = 300"
definition BALL_SPEED_INCREMENT :: real where "BALL_SPEED_INCREMENT = 8 / 10"
definition MAX_BALL_SPEED :: real where "MAX_BALL_SPEED = 1200"

subsection \<open>Python and pygame primitives\<close>

text \<open>\<open>int(x)\<close> on a float truncates toward zero.\<close>

definition py_int :: "real \<Rightarrow> int" where
  "py_int v = (if 0 \<le> v then \<lfloor>v\<rfloor> else \<lceil>v\<rceil>)"

text \<open>\<open>math.hypot\<close>.\<close>

definition hypot :: "real \<Rightarrow> real \<Rightarrow> real" where
  "hypot a b = sqrt (a * a + b * b)"

definition clamp :: "real \<Rightarrow> real \<Rightarrow> real \<Rightarrow> real" where
  "clamp n a b = max a (min b n)"

text \<open>
  \<open>pg.Rect\<close>: integer position and size.  The virtual attributes read and written by
  the game are derived from the four stored fields the way pygame derives them
  (\<open>centerx = x + w // 2\<close>, \<open>right = x + w\<close>; assigning \<open>centerx\<close> moves \<open>x\<close>).
\<close>

record Rect =
  rect_x :: int
  rect_y :: int
  rect_w :: int
  rect_h :: int

definition mkRect :: "int \<Rightarrow> int \<Rightarrow> int \<Rightarrow> int \<Rightarrow> Rect" where
  "mkRect a b c d = \<lparr>rect_x = a, rect_y = b, rect_w = c, rect_h = d\<rparr>"

definition rect_left :: "Rect \<Rightarrow> int" where "rect_left r = rect_x r"
definition rect_right :: "Rect \<Rightarrow> int" where "rect_right r = rect_x r + rect_w r"
definition rect_top :: "Rect \<Rightarrow> int" where "rect_top r = rect_y r"
definition rect_bottom :: "Rect \<Rightarrow> int" where "rect_bottom r = rect_y r + rect_h r"
definition rect_centerx :: "Rect \<Rightarrow> int" where "rect_centerx r = rect_x r + rect_w r div 2"
definition rect_centery :: "Rect \<Rightarrow> int" where "rect_centery r = rect_y r + rect_h r div 2"

definition set_centerx :: "Rect \<Rightarrow> int \<Rightarrow> Rect" where
  "set_centerx r c = r\<lparr>rect_x := c - rect_w r div 2\<rparr>"
definition set_centery :: "Rect \<Rightarrow> int \<Rightarrow> Rect" where
  "set_centery r c = r\<lparr>rect_y := c - rect_h r div 2\<rparr>"
definition set_center :: "Rect \<Rightarrow> int \<times> int \<Rightarrow> Rect" where
  "set_center r c = set_centery (set_centerx r (fst c)) (snd c)"

text \<open>
  \<open>Rect.colliderect\<close>: the rectangles overlap in both axes; touching edges do not
  count, and a rectangle of zero width or height collides with nothing.
\<close>

definition colliderect :: "Rect \<Rightarrow> Rect \<Rightarrow> bool" where
  "colliderect a b =
     (if rect_w a = 0 \<or> rect_h a = 0 \<or> rect_w b = 0 \<or> rect_h b = 0 then False
      else min (rect_x a) (rect_x a + rect_w a) < max (rect_x b) (rect_x b + rect_w b)
         \<and> min (rect_y a) (rect_y a + rect_h a) < max (rect_y b) (rect_y b + rect_h b)
         \<and> max (rect_x a) (rect_x a + rect_w a) > min (rect_x b) (rect_x b + rect_w b)
         \<and> max (rect_y a) (rect_y a + rect_h a) > min (rect_y b) (rect_y b + rect_h b))"

subsection \<open>Paddle\<close>

record Paddle =
  paddle_rect :: Rect
  paddle_y :: real
  paddle_speed :: real
  paddle_flash_timer :: real

definition Paddle_init :: "int \<Rightarrow> int \<Rightarrow> Paddle" where
  "Paddle_init a b =
     \<lparr>paddle_rect = mkRect a b PADDLE_WIDTH PADDLE_HEIGHT,
      paddle_y = real_of_int b,
      paddle_speed = 0,
      paddle_flash_timer = 0\<rparr>"

text \<open>\<open>Paddle.move(dt)\<close>, statement by statement.\<close>

definition move :: "Paddle \<Rightarrow> real \<Rightarrow> Paddle" where
  "move p dt =
     (let p1 = p\<lparr>paddle_y := paddle_y p + paddle_speed p * dt\<rparr>;
          p2 = (if paddle_y p1 < 0 then p1\<lparr>paddle_y := 0\<rparr> else p1);
          p3 = (if paddle_y p2 + real_of_int (rect_h (paddle_rect p2)) > real_of_int HEIGHT
                then p2\<lparr>paddle_y := real_of_int (HEIGHT - rect_h (paddle_rect p2))\<rparr>
                else p2);
          p4 = p3\<lparr>paddle_rect := (paddle_rect p3)\<lparr>rect_y := py_int (paddle_y p3)\<rparr>\<rparr>
      in if paddle_flash_timer p4 > 0
         then p4\<lparr>paddle_flash_timer := max 0 (paddle_flash_timer p4 - dt)\<rparr>
         else p4)"

subsection \<open>Ball\<close>

record Ball =
  ball_rect :: Rect
  ball_x :: real
  ball_y :: real
  ball_vx :: real
  ball_vy :: real

text \<open>
  \<open>Ball.reset(direction)\<close>.  The two random draws are inputs: \<open>angle\<close> is the value of
  \<open>random.uniform(-0.5, 0.5)\<close> and \<open>choice\<close> the value of \<open>random.choice([-1, 1])\<close>,
  which is used only when no direction is requested.
\<close>

definition reset :: "Ball \<Rightarrow> int option \<Rightarrow> real \<Rightarrow> int \<Rightarrow> Ball" where
  "reset b direction angle choice =
     (let b1 = b\<lparr>ball_x := real_of_int (WIDTH div 2)\<rparr>;
          b2 = b1\<lparr>ball_y := real_of_int (HEIGHT div 2)\<rparr>;
          speed = BALL_SPEED_START;
          d = (case direction of None \<Rightarrow> choice | Some d' \<Rightarrow> d');
          b3 = b2\<lparr>ball_vx := real_of_int d * speed * (1 + \<bar>angle\<bar>)\<rparr>;
          b4 = b3\<lparr>ball_vy := speed * angle * 2\<rparr>
      in b4\<lparr>ball_rect := set_center (ball_rect b4) (py_int (ball_x b4), py_int (ball_y b4))\<rparr>)"

text \<open>\<open>Ball()\<close>: the constructor serves to the right.\<close>

definition Ball_init :: "real \<Rightarrow> int \<Rightarrow> Ball" where
  "Ball_init angle choice =
     reset \<lparr>ball_rect = mkRect 0 0 BALL_SIZE BALL_SIZE,
            ball_x = real_of_int (WIDTH div 2),
            ball_y = real_of_int (HEIGHT div 2),
            ball_vx = 0, ball_vy = 0\<rparr> (Some 1) angle choice"

text \<open>\<open>Ball.update(dt)\<close>.  The second bound test reads the position the first one left.\<close>

definition update :: "Ball \<Rightarrow> real \<Rightarrow> Ball" where
  "update b dt =
     (let b1 = b\<lparr>ball_x := ball_x b + ball_vx b * dt\<rparr>;
          b2 = b1\<lparr>ball_y := ball_y b1 + ball_vy b1 * dt\<rparr>;
          half_h = real_of_int (rect_h (ball_rect b2)) / 2;
          b3 = (if ball_y b2 - half_h \<le> 0
                then b2\<lparr>ball_y := half_h, ball_vy := - ball_vy b2\<rparr> else b2);
          b4 = (if ball_y b3 + half_h \<ge> real_of_int HEIGHT
                then b3\<lparr>ball_y := real_of_int HEIGHT - half_h, ball_vy := - ball_vy b3\<rparr>
                else b3);
          b5 = b4\<lparr>ball_rect := set_centerx (ball_rect b4) (py_int (ball_x b4))\<rparr>
      in b5\<lparr>ball_rect := set_centery (ball_rect b5) (py_int (ball_y b5))\<rparr>)"

text \<open>
  The position the ball reaches by integration alone, before the bounds are applied,
  and the test \<open>Ball.update\<close> makes on it: the ball's edge is at or beyond the top or
  the bottom of the board.
\<close>

definition integrated_y :: "Ball \<Rightarrow> real \<Rightarrow> real" where
  "integrated_y b dt = ball_y b + ball_vy b * dt"

definition crossed_bound :: "Ball \<Rightarrow> real \<Rightarrow> bool" where
  "crossed_bound b dt =
     (integrated_y b dt - real_of_int (rect_h (ball_rect b)) / 2 \<le> 0
      \<or> integrated_y b dt + real_of_int (rect_h (ball_rect b)) / 2 \<ge> real_of_int HEIGHT)"

text \<open>A ball as the game builds it: its rectangle is \<open>BALL_SIZE\<close> square.\<close>

definition ball_sized :: "Ball \<Rightarrow> bool" where
  "ball_sized b = (rect_w (ball_rect b) = BALL_SIZE \<and> rect_h (ball_rect b) = BALL_SIZE)"

definition paddle_sized :: "Paddle \<Rightarrow> bool" where
  "paddle_sized p =
     (rect_w (paddle_rect p) = PADDLE_WIDTH \<and> rect_h (paddle_rect p) = PADDLE_HEIGHT)"

subsection \<open>Particle\<close>

type_synonym colour = "int \<times> int \<times> int"

record Particle =
  part_x :: real
  part_y :: real
  part_vx :: real
  part_vy :: real
  part_life :: real
  part_age :: real
  part_size :: real
  part_color :: colour

definition Particle_init ::
  "int \<times> int \<Rightarrow> real \<times> real \<Rightarrow> real \<Rightarrow> real \<Rightarrow> colour \<Rightarrow> Particle" where
  "Particle_init pos vel life sz color =
     \<lparr>part_x = real_of_int (fst pos), part_y = real_of_int (snd pos),
      part_vx = fst vel, part_vy = snd vel,
      part_life = life, part_age = 0, part_size = sz, part_color = color\<rparr>"

definition Particle_update :: "Particle \<Rightarrow> real \<Rightarrow> Particle" where
  "Particle_update p dt =
     (let p1 = p\<lparr>part_age := part_age p + dt\<rparr>;
          p2 = p1\<lparr>part_x := part_x p1 + part_vx p1 * dt\<rparr>;
          p3 = p2\<lparr>part_y := part_y p2 + part_vy p2 * dt\<rparr>;
          p4 = p3\<lparr>part_vy := part_vy p3 + 60 * dt\<rparr>;
          p5 = p4\<lparr>part_vx := part_vx p4 * (1 - 3 / 10 * dt)\<rparr>
      in p5\<lparr>part_vy := part_vy p5 * (1 - 1 / 10 * dt)\<rparr>)"

definition is_dead :: "Particle \<Rightarrow> bool" where
  "is_dead p = (part_age p \<ge> part_life p)"

subsection \<open>Settings: a dictionary of Python values\<close>

text \<open>
  The values a settings dictionary holds.  Dictionaries are keyed by strings, as
  every dictionary of the program is; two dictionaries are equal when they have the
  same keys with equal values, which is equality of maps.
\<close>

datatype pyval = PNone | PBool bool | PInt int | PStr string | PDict "string \<Rightarrow> pyval option"

type_synonym pydict = "string \<Rightarrow> pyval option"

text \<open>\<open>d.get(k, default)\<close>.\<close>

definition dict_get :: "pydict \<Rightarrow> string \<Rightarrow> pyval \<Rightarrow> pyval" where
  "dict_get d k dflt = (case d k of None \<Rightarrow> dflt | Some v \<Rightarrow> v)"

text \<open>The pygame key constants of the default bindings (SDL key codes).\<close>

definition K_w :: int where "K_w = 119"
definition K_s :: int where "K_s = 115"
definition K_UP :: int where "K_UP = 1073741906"
definition K_DOWN :: int where "K_DOWN = 1073741905"
definition K_r :: int where "K_r = 114"
definition K_m :: int where "K_m = 109"
definition K_F3 :: int where "K_F3 = 1073741884"

definition DEFAULT_CONTROLS :: pydict where
  "DEFAULT_CONTROLS =
     [''left_up'' \<mapsto> PInt K_w, ''left_down'' \<mapsto> PInt K_s,
      ''right_up'' \<mapsto> PInt K_UP, ''right_down'' \<mapsto> PInt K_DOWN,
      ''reset'' \<mapsto> PInt K_r, ''menu'' \<mapsto> PInt K_m, ''debug'' \<mapsto> PInt K_F3]"

definition DEFAULT_SETTINGS :: pydict where
  "DEFAULT_SETTINGS =
     [''ai_difficulty'' \<mapsto> PStr ''Normal'', ''particle_quality'' \<mapsto> PStr ''Normal'',
      ''sound'' \<mapsto> PBool True, ''controls'' \<mapsto> PDict DEFAULT_CONTROLS]"

text \<open>
  The part of the file system the two functions touch.  \<open>primary_file\<close> is
  \<open>config.pickle\<close> under the per-user configuration directory, \<open>fallback_file\<close> the one
  under \<open>~/.pong\<close>.  A file holds a pickled object or bytes that do not unpickle.  The
  three flags say whether \<open>os.makedirs\<close> succeeds on the two directories and whether
  opening the target for writing succeeds.  Pickling a dictionary and unpickling it
  gives an equal dictionary, so a file written by \<open>pickle.dump\<close> holds the value itself.
\<close>

datatype content = Corrupt | Pickled pyval

datatype config_dir = PrimaryDir | FallbackDir

datatype py_error = OSError

record filesystem =
  primary_isdir :: bool
  can_mkdir_primary :: bool
  can_mkdir_fallback :: bool
  can_write :: bool
  primary_file :: "content option"
  fallback_file :: "content option"

definition ensure_config_dir :: "filesystem \<Rightarrow> py_error + (config_dir \<times> filesystem)" where
  "ensure_config_dir fs =
     (if primary_isdir fs \<or> can_mkdir_primary fs
      then Inr (PrimaryDir, fs\<lparr>primary_isdir := True\<rparr>)
      else if can_mkdir_fallback fs then Inr (FallbackDir, fs)
      else Inl OSError)"

definition save_settings :: "pydict \<Rightarrow> filesystem \<Rightarrow> py_error + filesystem" where
  "save_settings settings fs =
     (case ensure_config_dir fs of
        Inl e \<Rightarrow> Inl e
      | Inr (cdir, fs1) \<Rightarrow>
          let target = (if \<not> primary_isdir fs1 then cdir else PrimaryDir) in
          if can_write fs1
          then (case target of
                  PrimaryDir \<Rightarrow> Inr (fs1\<lparr>primary_file := Some (Pickled (PDict settings))\<rparr>)
                | FallbackDir \<Rightarrow> Inr (fs1\<lparr>fallback_file := Some (Pickled (PDict settings))\<rparr>))
          else Inr fs1)"

text \<open>
  \<open>load_settings\<close> reads the primary path only.  A dictionary is merged over the
  defaults, the controls entry apart, which is the stored controls merged over the
  default controls.
\<close>

definition load_settings :: "filesystem \<Rightarrow> pydict" where
  "load_settings fs =
     (case primary_file fs of
        None \<Rightarrow> DEFAULT_SETTINGS(''controls'' \<mapsto> PDict DEFAULT_CONTROLS)
      | Some Corrupt \<Rightarrow> DEFAULT_SETTINGS
      | Some (Pickled (PDict data)) \<Rightarrow>
          (let settings = DEFAULT_SETTINGS;
               controls = DEFAULT_CONTROLS;
               controls1 = (case data ''controls'' of
                              Some (PDict c) \<Rightarrow> controls ++ c
                            | _ \<Rightarrow> controls);
               settings1 = settings ++ data
           in settings1(''controls'' \<mapsto> PDict controls1))
      | Some (Pickled _) \<Rightarrow> DEFAULT_SETTINGS(''controls'' \<mapsto> PDict DEFAULT_CONTROLS))"

text \<open>
  A settings record as the program holds it: the four fields are present, and the
  controls field is a dictionary with an entry (a key code or \<open>None\<close>) for each of the
  seven logical actions.
\<close>

definition settings_fields :: "string list" where
  "settings_fields = [''ai_difficulty'', ''particle_quality'', ''sound'', ''controls'']"

definition control_actions :: "string list" where
  "control_actions =
     [''left_up'', ''left_down'', ''right_up'', ''right_down'', ''reset'', ''menu'', ''debug'']"

definition settings_record :: "pydict \<Rightarrow> bool" where
  "settings_record s =
     (list_all (\<lambda>k. s k \<noteq> None) settings_fields
      \<and> (case s ''controls'' of
            Some (PDict c) \<Rightarrow> list_all (\<lambda>a. c a \<noteq> None) control_actions
          | _ \<Rightarrow> False))"

definition controls_of :: "pydict \<Rightarrow> pydict" where
  "controls_of s = (case s ''controls'' of Some (PDict c) \<Rightarrow> c | _ \<Rightarrow> Map.empty)"

subsection \<open>AI and particle helpers\<close>

definition ai_move :: "Paddle \<Rightarrow> Ball \<Rightarrow> pydict \<Rightarrow> Paddle" where
  "ai_move paddle b settings =
     (let diff = dict_get settings ''ai_difficulty'' (PStr ''Normal'');
          (maxspeed, deadzone) =
             (if diff = PStr ''Easy'' then (PADDLE_SPEED * (7 / 10), 14)
              else if diff = PStr ''Hard'' then (PADDLE_SPEED * (135 / 100), 4)
              else (PADDLE_SPEED, 8))
      in if real_of_int (rect_centery (paddle_rect paddle))
              < real_of_int (rect_centery (ball_rect b)) - deadzone
         then paddle\<lparr>paddle_speed := maxspeed\<rparr>
         else if real_of_int (rect_centery (paddle_rect paddle))
              > real_of_int (rect_centery (ball_rect b)) + deadzone
         then paddle\<lparr>paddle_speed := - maxspeed\<rparr>
         else paddle\<lparr>paddle_speed := 0\<rparr>)"

definition get_particle_count :: "pydict \<Rightarrow> int \<Rightarrow> int" where
  "get_particle_count settings base =
     (let q = dict_get settings ''particle_quality'' (PStr ''Normal'')
      in if q = PStr ''Low'' then max 1 (py_int (real_of_int base * (5 / 10)))
         else if q = PStr ''High'' then py_int (real_of_int base * (18 / 10))
         else base)"

text \<open>
  The random draws of one particle of an impact burst, in the order the loop body
  makes them, and those of one particle of a score burst.
\<close>

record impact_draw =
  draw_speed :: real
  draw_random :: real
  draw_angle :: real
  draw_life :: real
  draw_size :: real
  draw_color :: colour

record score_draw =
  sdraw_speed :: real
  sdraw_angle :: real
  sdraw_life :: real
  sdraw_size :: real
  sdraw_color :: colour

text \<open>The number of iterations of the loop of \<open>emit_particles\<close> (its variable \<open>count\<close>).\<close>

definition emit_count :: "pydict \<Rightarrow> real \<Rightarrow> int" where
  "emit_count settings intensity =
     (let base = 12;
          count = py_int (real_of_int (get_particle_count settings base) * intensity)
      in max 2 (min 200 count))"

definition emit_particles ::
  "Particle list \<Rightarrow> int \<times> int \<Rightarrow> int \<Rightarrow> pydict \<Rightarrow> real \<Rightarrow> (nat \<Rightarrow> impact_draw)
   \<Rightarrow> Particle list" where
  "emit_particles particles_list pos direction settings intensity draws =
     particles_list @
     map (\<lambda>i. let d = draws i;
                  speed = draw_speed d * (7 / 10 + draw_random d * (8 / 10)) * intensity;
                  angle = draw_angle d + (if direction = 1 then 0 else pi);
                  pvx = cos angle * speed;
                  pvy = sin angle * speed;
                  life = draw_life d;
                  sz = draw_size d * (6 / 10 + 8 / 10 * min 1 intensity);
                  color = draw_color d
              in Particle_init pos (pvx, pvy) life sz color)
         [0 ..< nat (emit_count settings intensity)]"

definition emit_score_burst ::
  "Particle list \<Rightarrow> int \<times> int \<Rightarrow> pydict \<Rightarrow> (nat \<Rightarrow> score_draw) \<Rightarrow> Particle list" where
  "emit_score_burst particles_list pos settings draws =
     particles_list @
     map (\<lambda>i. let d = draws i;
                  speed = sdraw_speed d;
                  angle = sdraw_angle d;
                  pvx = cos angle * speed;
                  pvy = sin angle * speed
              in Particle_init pos (pvx, pvy) (sdraw_life d) (sdraw_size d) (sdraw_color d))
         [0 ..< nat (get_particle_count settings 48)]"

subsection \<open>The game loop\<close>

text \<open>
  The state \<open>run_game\<close> keeps across frames.  The trail, the frame-time samples and
  the drawing are left out: nothing reads them back into the fields below.  Sound
  playback has no effect on the state either.
\<close>

record game =
  left :: Paddle
  right :: Paddle
  ball :: Ball
  score_left :: int
  score_right :: int
  right_ai :: bool
  paused :: bool
  particles :: "Particle list"
  shake_timer :: real
  shake_magnitude :: real

text \<open>The state before the first frame; \<open>one_player\<close> is \<open>mode == "1p"\<close>.\<close>

definition game_init :: "bool \<Rightarrow> real \<Rightarrow> int \<Rightarrow> game" where
  "game_init one_player angle choice =
     \<lparr>left = Paddle_init 20 (HEIGHT div 2 - PADDLE_HEIGHT div 2),
      right = Paddle_init (WIDTH - 20 - PADDLE_WIDTH) (HEIGHT div 2 - PADDLE_HEIGHT div 2),
      ball = Ball_init angle choice,
      score_left = 0, score_right = 0,
      right_ai = one_player, paused = False,
      particles = [],
      shake_timer = 0, shake_magnitude = 0\<rparr>"

text \<open>
  What one frame reads from outside: the milliseconds \<open>clock.tick(FPS)\<close> returns, the
  random draws of the two impact bursts, of the score burst and of the two possible
  serves, and whether the winner screen ended on a quit event.
\<close>

record frame_input =
  tick_ms :: nat
  left_draws :: "nat \<Rightarrow> impact_draw"
  right_draws :: "nat \<Rightarrow> impact_draw"
  burst_draws :: "nat \<Rightarrow> score_draw"
  serve_angle :: real
  win_angle :: real
  win_choice :: int
  quit_requested :: bool

text \<open>\<open>dt = clock.tick(FPS) / 1000.0\<close>.\<close>

definition frame_dt :: "nat \<Rightarrow> real" where
  "frame_dt ms = real ms / 1000"

text \<open>
  The response of the ball to a paddle, in the three steps of a collision block.
  \<open>deflect_left\<close> and \<open>deflect_right\<close> put the ball on the paddle's outer edge, turn
  the horizontal velocity away from the paddle and add the deflection of the hit
  offset.  The loop then computes \<open>speed\<close> with \<open>math.hypot\<close> (\<open>ball_speed\<close>) and scales
  the velocity up when that speed is below the maximum (\<open>speed_up\<close>).  The paddle
  heights of the game are not zero, so the division is Python's.
\<close>

definition deflect_left :: "Ball \<Rightarrow> Paddle \<Rightarrow> Ball" where
  "deflect_left b l =
     (let b1 = b\<lparr>ball_x := real_of_int (rect_right (paddle_rect l))
                             + real_of_int (rect_w (ball_rect b)) / 2\<rparr>;
          b2 = b1\<lparr>ball_vx := \<bar>ball_vx b1\<bar>\<rparr>;
          offset = real_of_int (rect_centery (ball_rect b2) - rect_centery (paddle_rect l))
                   / (real_of_int (rect_h (paddle_rect l)) / 2)
      in b2\<lparr>ball_vy := ball_vy b2 + offset * 150\<rparr>)"

definition deflect_right :: "Ball \<Rightarrow> Paddle \<Rightarrow> Ball" where
  "deflect_right b r =
     (let b1 = b\<lparr>ball_x := real_of_int (rect_left (paddle_rect r))
                             - real_of_int (rect_w (ball_rect b)) / 2\<rparr>;
          b2 = b1\<lparr>ball_vx := - \<bar>ball_vx b1\<bar>\<rparr>;
          offset = real_of_int (rect_centery (ball_rect b2) - rect_centery (paddle_rect r))
                   / (real_of_int (rect_h (paddle_rect r)) / 2)
      in b2\<lparr>ball_vy := ball_vy b2 + offset * 150\<rparr>)"

definition ball_speed :: "Ball \<Rightarrow> real" where
  "ball_speed b = hypot (ball_vx b) (ball_vy b)"

definition growth_factor :: real where
  "growth_factor = 1 + BALL_SPEED_INCREMENT / 10"

definition speed_up :: "Ball \<Rightarrow> real \<Rightarrow> Ball" where
  "speed_up b speed =
     (if speed < MAX_BALL_SPEED
      then (let scale = 1 + BALL_SPEED_INCREMENT / 10
            in b\<lparr>ball_vx := ball_vx b * scale, ball_vy := ball_vy b * scale\<rparr>)
      else b)"

text \<open>The two collision blocks of the loop.\<close>

definition collide_left :: "pydict \<Rightarrow> (nat \<Rightarrow> impact_draw) \<Rightarrow> game \<Rightarrow> game" where
  "collide_left settings draws g =
     (if colliderect (ball_rect (ball g)) (paddle_rect (left g))
      then (let b3 = deflect_left (ball g) (left g);
                speed = ball_speed b3;
                b4 = speed_up b3 speed;
                impact_strength = clamp (speed / BALL_SPEED_START) (8 / 10) 3;
                ps = emit_particles (particles g)
                       (rect_left (ball_rect b4), rect_centery (ball_rect b4))
                       1 settings impact_strength draws
            in g\<lparr>ball := b4, particles := ps,
                 left := (left g)\<lparr>paddle_flash_timer := 12 / 100\<rparr>,
                 shake_timer := max (shake_timer g) (12 / 100),
                 shake_magnitude := max (shake_magnitude g) (min 18 (6 * impact_strength))\<rparr>)
      else g)"

definition collide_right :: "pydict \<Rightarrow> (nat \<Rightarrow> impact_draw) \<Rightarrow> game \<Rightarrow> game" where
  "collide_right settings draws g =
     (if colliderect (ball_rect (ball g)) (paddle_rect (right g))
      then (let b3 = deflect_right (ball g) (right g);
                speed = ball_speed b3;
                b4 = speed_up b3 speed;
                impact_strength = clamp (speed / BALL_SPEED_START) (8 / 10) 3;
                ps = emit_particles (particles g)
                       (rect_right (ball_rect b4), rect_centery (ball_rect b4))
                       (- 1) settings impact_strength draws
            in g\<lparr>ball := b4, particles := ps,
                 right := (right g)\<lparr>paddle_flash_timer := 12 / 100\<rparr>,
                 shake_timer := max (shake_timer g) (12 / 100),
                 shake_magnitude := max (shake_magnitude g) (min 18 (6 * impact_strength))\<rparr>)
      else g)"

text \<open>
  Scoring.  \<open>score_exit\<close> is the test on the ball's rectangle with the increment of a
  score and the value of \<open>scorer\<close>; \<open>serve\<close> is what the loop does when \<open>scorer\<close> is set,
  up to the win logic; \<open>score_and_serve\<close> is the two together.
\<close>

definition score_exit :: "game \<Rightarrow> game \<times> int option" where
  "score_exit g =
     (if rect_right (ball_rect (ball g)) < 0
      then (g\<lparr>score_right := score_right g + 1\<rparr>, Some 1)
      else if rect_left (ball_rect (ball g)) > WIDTH
      then (g\<lparr>score_left := score_left g + 1\<rparr>, Some (- 1))
      else (g, None))"

definition serve :: "pydict \<Rightarrow> (nat \<Rightarrow> score_draw) \<Rightarrow> real \<Rightarrow> int \<Rightarrow> game \<Rightarrow> game" where
  "serve settings draws angle scorer g =
     (let ps = emit_score_burst (particles g) (WIDTH div 2, HEIGHT div 2) settings draws;
          serve_dir = - scorer
      in g\<lparr>particles := ps,
           ball := reset (ball g) (Some serve_dir) angle serve_dir,
           shake_timer := max (shake_timer g) (22 / 100),
           shake_magnitude := max (shake_magnitude g) 22\<rparr>)"

definition score_and_serve :: "pydict \<Rightarrow> (nat \<Rightarrow> score_draw) \<Rightarrow> real \<Rightarrow> game \<Rightarrow> game" where
  "score_and_serve settings draws angle g =
     (case score_exit g of
        (g1, None) \<Rightarrow> g1
      | (g1, Some scorer) \<Rightarrow> serve settings draws angle scorer g1)"

text \<open>
  The win logic, which runs after a point only.  \<open>SCORE_TO_WIN\<close> is a parameter:
  \<open>None\<close> stands for an unset value; the module sets it to 5.  The loop leaves
  \<open>run_game\<close> when the winner screen reports a quit.  The first component of the
  result is the banner \<open>show_winner_and_wait\<close> has drawn, if it was called.
\<close>

datatype 'a outcome = Returned | Continue 'a

definition SCORE_TO_WIN :: "int option" where
  "SCORE_TO_WIN = Some 5"

definition win_enabled :: "int option \<Rightarrow> bool" where
  "win_enabled stw = (case stw of None \<Rightarrow> False | Some n \<Rightarrow> n \<noteq> 0 \<and> n > 0)"

definition win_logic ::
  "int option \<Rightarrow> bool \<Rightarrow> real \<Rightarrow> int \<Rightarrow> game \<Rightarrow> string option \<times> game outcome" where
  "win_logic stw quit angle choice g =
     (case stw of
        None \<Rightarrow> (None, Continue g)
      | Some n \<Rightarrow>
          if n \<noteq> 0 \<and> n > 0
          then (if score_left g \<ge> n \<or> score_right g \<ge> n
                then (let winner = (if score_left g \<ge> n then ''Left'' else ''Right'');
                          winner_text = winner @ '' wins!''
                      in if quit then (Some winner_text, Returned)
                         else (Some winner_text,
                               Continue (g\<lparr>score_left := 0, score_right := 0,
                                           ball := reset (ball g) None angle choice,
                                           paused := False\<rparr>)))
                else (None, Continue g))
          else (None, Continue g))"

definition scoring ::
  "int option \<Rightarrow> pydict \<Rightarrow> frame_input \<Rightarrow> game \<Rightarrow> string option \<times> game outcome" where
  "scoring stw settings inp g =
     (case score_exit g of
        (g1, None) \<Rightarrow> (None, Continue g1)
      | (g1, Some scorer) \<Rightarrow>
          win_logic stw (quit_requested inp) (win_angle inp) (win_choice inp)
            (serve settings (burst_draws inp) (serve_angle inp) scorer g1))"

definition advance_particles :: "real \<Rightarrow> game \<Rightarrow> game" where
  "advance_particles dt g =
     (let ps = filter (\<lambda>p. \<not> is_dead p) (map (\<lambda>p. Particle_update p dt) (particles g));
          g1 = g\<lparr>particles := ps\<rparr>
      in if shake_timer g1 > 0
         then (let g2 = g1\<lparr>shake_timer := max 0 (shake_timer g1 - dt)\<rparr>
               in if shake_timer g2 \<le> 0 then g2\<lparr>shake_magnitude := 0\<rparr> else g2)
         else g1)"

text \<open>
  One iteration of the loop for a given \<open>dt\<close>, with no joystick attached and no
  input event in the queue.
  \<open>kinematics\<close> is the AI command and the integration of the paddles and of the ball;
  the collisions, the scoring with the win logic, and the particles with the shake
  timer follow.
\<close>

definition kinematics :: "pydict \<Rightarrow> real \<Rightarrow> game \<Rightarrow> game" where
  "kinematics settings dt g =
     (let g1 = (if right_ai g then g\<lparr>right := ai_move (right g) (ball g) settings\<rparr> else g);
          g2 = g1\<lparr>left := move (left g1) dt\<rparr>;
          g3 = g2\<lparr>right := move (right g2) dt\<rparr>
      in if \<not> paused g3 then g3\<lparr>ball := update (ball g3) dt\<rparr> else g3)"

definition frame_body ::
  "int option \<Rightarrow> pydict \<Rightarrow> real \<Rightarrow> frame_input \<Rightarrow> game \<Rightarrow> string option \<times> game outcome" where
  "frame_body stw settings dt inp g =
     (let g4 = kinematics settings dt g;
          g5 = collide_left settings (left_draws inp) g4;
          g6 = collide_right settings (right_draws inp) g5
      in case scoring stw settings inp g6 of
           (banner, Returned) \<Rightarrow> (banner, Returned)
         | (banner, Continue g7) \<Rightarrow> (banner, Continue (advance_particles dt g7)))"

definition frame ::
  "int option \<Rightarrow> pydict \<Rightarrow> frame_input \<Rightarrow> game \<Rightarrow> string option \<times> game outcome" where
  "frame stw settings inp g = frame_body stw settings (frame_dt (tick_ms inp)) inp g"

text \<open>
  A frame in free flight: the game is not paused and the ball, once integrated, meets
  no paddle and is not beyond the left or the right boundary, so that neither
  collision block nor the scoring block runs.
\<close>

definition free_flight :: "pydict \<Rightarrow> real \<Rightarrow> game \<Rightarrow> bool" where
  "free_flight settings dt g =
     (let g4 = kinematics settings dt g
      in \<not> paused g
         \<and> \<not> colliderect (ball_rect (ball g4)) (paddle_rect (left g4))
         \<and> \<not> colliderect (ball_rect (ball g4)) (paddle_rect (right g4))
         \<and> \<not> rect_right (ball_rect (ball g4)) < 0
         \<and> \<not> rect_left (ball_rect (ball g4)) > WIDTH)"

subsection \<open>Concrete inputs for the examples\<close>

text \<open>
  A ball whose rectangle is centred on \<open>(cx, cy)\<close>, random draws that are the same for
  every particle, and a frame input built from them.
\<close>

definition ball_at :: "int \<Rightarrow> int \<Rightarrow> real \<Rightarrow> real \<Rightarrow> Ball" where
  "ball_at cx cy v w =
     \<lparr>ball_rect = mkRect (cx - 7) (cy - 7) BALL_SIZE BALL_SIZE,
      ball_x = real_of_int cx, ball_y = real_of_int cy, ball_vx = v, ball_vy = w\<rparr>"

definition fixed_impact_draws :: "nat \<Rightarrow> impact_draw" where
  "fixed_impact_draws = (\<lambda>i. \<lparr>draw_speed = 80, draw_random = 0, draw_angle = 0,
                               draw_life = 18 / 100, draw_size = 2,
                               draw_color = (255, 220, 120)\<rparr>)"

definition fixed_score_draws :: "nat \<Rightarrow> score_draw" where
  "fixed_score_draws = (\<lambda>i. \<lparr>sdraw_speed = 120, sdraw_angle = 0, sdraw_life = 1 / 2,
                              sdraw_size = 3, sdraw_color = (255, 220, 120)\<rparr>)"

definition fixed_input :: "nat \<Rightarrow> bool \<Rightarrow> frame_input" where
  "fixed_input ms quit =
     \<lparr>tick_ms = ms, left_draws = fixed_impact_draws, right_draws = fixed_impact_draws,
      burst_draws = fixed_score_draws, serve_angle = 1 / 4, win_angle = 0, win_choice = 1,
      quit_requested = quit\<rparr>"

definition easy_settings :: pydict where
  "easy_settings = DEFAULT_SETTINGS(''ai_difficulty'' \<mapsto> PStr ''Easy'')"

definition quality_settings :: "string \<Rightarrow> pydict" where
  "quality_settings q = DEFAULT_SETTINGS(''particle_quality'' \<mapsto> PStr q)"

text \<open>
  Settings with the reset action unbound and the sound off, and a file system in
  which nothing is stored yet and every operation succeeds.
\<close>

definition unbound_reset_settings :: pydict where
  "unbound_reset_settings =
     DEFAULT_SETTINGS(''controls'' \<mapsto> PDict (DEFAULT_CONTROLS(''reset'' \<mapsto> PNone)),
                      ''sound'' \<mapsto> PBool False)"

definition fresh_filesystem :: filesystem where
  "fresh_filesystem =
     \<lparr>primary_isdir = False, can_mkdir_primary = True, can_mkdir_fallback = True,
      can_write = True, primary_file = None, fallback_file = None\<rparr>"

text \<open>
  A two-player game whose ball is at the centre and drifts horizontally with velocity
  \<open>v\<close>, and a file system in which the per-user configuration directory does not
  exist and cannot be made while \<open>~/.pong\<close> can.
\<close>

definition drifting_game :: "real \<Rightarrow> game" where
  "drifting_game v = (game_init False 0 1)\<lparr>ball := ball_at 450 300 v 0\<rparr>"

definition no_primary_filesystem :: filesystem where
  "no_primary_filesystem =
     \<lparr>primary_isdir = False, can_mkdir_primary = False, can_mkdir_fallback = True,
      can_write = True, primary_file = None, fallback_file = None\<rparr>"

section \<open>Properties\<close>

lemmas config_defs =
  WIDTH_def HEIGHT_def FPS_def PADDLE_WIDTH_def PADDLE_HEIGHT_def PADDLE_SPEED_def
  BALL_SIZE_def BALL_SPEED_START_def BALL_SPEED_INCREMENT_def MAX_BALL_SPEED_def

lemmas rect_defs =
  mkRect_def rect_left_def rect_right_def rect_top_def rect_bottom_def
  rect_centerx_def rect_centery_def set_centerx_def set_centery_def set_center_def

subsection \<open>Paddle.move\<close>

text \<open>
  C4.  For every paddle of the game (height \<open>PADDLE_HEIGHT\<close>), whatever its position
  and velocity, and for every \<open>dt > 0\<close>, the position after \<open>move\<close> lies in
  \<open>[0, HEIGHT - PADDLE_HEIGHT] = [0, 500]\<close> and the velocity field is the one before.
\<close>

theorem move_clamps_position_keeps_speed:
  assumes "paddle_sized p" and "0 < dt"
  shows "0 \<le> paddle_y (move p dt) \<and> paddle_y (move p dt) \<le> 500
         \<and> paddle_y (move p dt) \<le> real_of_int (HEIGHT - PADDLE_HEIGHT)
         \<and> paddle_speed (move p dt) = paddle_speed p"
  using assms by (simp add: move_def paddle_sized_def Let_def config_defs)

theorem move_clamps_position_keeps_speed_witness:
  "paddle_sized ((Paddle_init 20 250)\<lparr>paddle_y := 490, paddle_speed := 360\<rparr>) \<and> (0::real) < 1
   \<and> paddle_y (move ((Paddle_init 20 250)\<lparr>paddle_y := 490, paddle_speed := 360\<rparr>) 1) = 500
   \<and> paddle_speed (move ((Paddle_init 20 250)\<lparr>paddle_y := 490, paddle_speed := 360\<rparr>) 1) = 360"
  using move_clamps_position_keeps_speed
    [of "(Paddle_init 20 250)\<lparr>paddle_y := 490, paddle_speed := 360\<rparr>" 1]
  by (simp add: move_def paddle_sized_def Paddle_init_def mkRect_def Let_def config_defs)

subsection \<open>Ball.update\<close>

text \<open>
  C3.  For every ball of the game and every \<open>dt\<close> (in particular every \<open>dt \<ge> 0\<close>), after
  \<open>Ball.update\<close> the vertical centre lies in \<open>[BALL_SIZE / 2, HEIGHT - BALL_SIZE / 2]\<close>,
  and the vertical velocity is negated once if the integrated position reached the
  top or the bottom bound and is left as it was otherwise.
\<close>

theorem update_keeps_ball_on_board:
  assumes "ball_sized b"
  shows "real_of_int BALL_SIZE / 2 \<le> ball_y (update b dt)
         \<and> ball_y (update b dt) \<le> real_of_int HEIGHT - real_of_int BALL_SIZE / 2
         \<and> ball_vy (update b dt) = (if crossed_bound b dt then - ball_vy b else ball_vy b)"
  using assms
  by (simp add: update_def ball_sized_def crossed_bound_def integrated_y_def Let_def
        set_centerx_def set_centery_def config_defs)

theorem update_keeps_ball_on_board_witness:
  "ball_sized (ball_at 450 10 300 (- 200))
   \<and> crossed_bound (ball_at 450 10 300 (- 200)) (1 / 10)
   \<and> ball_y (update (ball_at 450 10 300 (- 200)) (1 / 10)) = 7
   \<and> ball_vy (update (ball_at 450 10 300 (- 200)) (1 / 10)) = 200"
  using update_keeps_ball_on_board [of "ball_at 450 10 300 (- 200)" "1 / 10"]
  by (simp add: update_def ball_at_def ball_sized_def crossed_bound_def integrated_y_def
        Let_def rect_defs config_defs)

subsection \<open>Ball.reset\<close>

text \<open>
  C10.  After \<open>Ball.reset\<close> with a requested direction \<open>d\<close> of \<open>1\<close> or \<open>-1\<close>, and \<open>angle\<close> a
  value of \<open>random.uniform(-0.5, 0.5)\<close>, the ball is at the board centre \<open>(450, 300)\<close>,
  the sign of the horizontal velocity is \<open>d\<close>, the horizontal speed lies in
  \<open>[BALL_SPEED_START, 1.5 * BALL_SPEED_START] = [300, 450]\<close> and so is not zero, and the
  vertical speed is at most \<open>BALL_SPEED_START\<close>.
\<close>

theorem reset_serves_from_centre:
  assumes "d = 1 \<or> d = - 1" and "- (1 / 2) \<le> angle" and "angle \<le> 1 / 2"
  shows "ball_x (reset b (Some d) angle c) = 450 \<and> ball_y (reset b (Some d) angle c) = 300
         \<and> sgn (ball_vx (reset b (Some d) angle c)) = real_of_int d
         \<and> BALL_SPEED_START \<le> \<bar>ball_vx (reset b (Some d) angle c)\<bar>
         \<and> \<bar>ball_vx (reset b (Some d) angle c)\<bar> \<le> (15 / 10) * BALL_SPEED_START
         \<and> 300 \<le> \<bar>ball_vx (reset b (Some d) angle c)\<bar>
         \<and> \<bar>ball_vx (reset b (Some d) angle c)\<bar> \<le> 450
         \<and> ball_vx (reset b (Some d) angle c) \<noteq> 0
         \<and> \<bar>ball_vy (reset b (Some d) angle c)\<bar> \<le> BALL_SPEED_START"
  using assms
  by (auto simp add: reset_def Let_def config_defs sgn_if abs_if)

theorem reset_serves_from_centre_witness:
  "((- 1 :: int) = 1 \<or> (- 1 :: int) = - 1) \<and> - (1 / 2) \<le> (1 / 4 :: real)
   \<and> (1 / 4 :: real) \<le> 1 / 2
   \<and> ball_x (reset (ball_at 30 40 (- 700) 90) (Some (- 1)) (1 / 4) 1) = 450
   \<and> ball_y (reset (ball_at 30 40 (- 700) 90) (Some (- 1)) (1 / 4) 1) = 300
   \<and> ball_vx (reset (ball_at 30 40 (- 700) 90) (Some (- 1)) (1 / 4) 1) = - 375
   \<and> ball_vy (reset (ball_at 30 40 (- 700) 90) (Some (- 1)) (1 / 4) 1) = 150"
  using reset_serves_from_centre [of "- 1" "1 / 4" "ball_at 30 40 (- 700) 90" 1]
  by (simp add: reset_def Let_def config_defs)

subsection \<open>ai_move\<close>

text \<open>
  C9.  With difficulty \<open>Easy\<close>, for every ball and paddle: if the vertical centre of the
  ball's rectangle is within 14 pixels of the vertical centre of the paddle's
  rectangle, \<open>ai_move\<close> sets the paddle velocity to zero; otherwise it sets it to
  \<open>0.7 * PADDLE_SPEED\<close> in magnitude, downward when the ball is below the paddle and
  upward when it is above.
\<close>

theorem ai_move_easy:
  assumes "settings ''ai_difficulty'' = Some (PStr ''Easy'')"
  shows "(\<bar>rect_centery (ball_rect b) - rect_centery (paddle_rect p)\<bar> \<le> 14
            \<longrightarrow> paddle_speed (ai_move p b settings) = 0)
       \<and> (rect_centery (ball_rect b) - rect_centery (paddle_rect p) > 14
            \<longrightarrow> paddle_speed (ai_move p b settings) = (7 / 10) * PADDLE_SPEED)
       \<and> (rect_centery (paddle_rect p) - rect_centery (ball_rect b) > 14
            \<longrightarrow> paddle_speed (ai_move p b settings) = - ((7 / 10) * PADDLE_SPEED))"
  using assms
  by (auto simp add: ai_move_def dict_get_def Let_def)

theorem ai_move_easy_witness:
  "easy_settings ''ai_difficulty'' = Some (PStr ''Easy'')
   \<and> rect_centery (paddle_rect (Paddle_init 868 250)) = 300
   \<and> paddle_speed (ai_move (Paddle_init 868 250) (ball_at 450 314 300 0) easy_settings) = 0
   \<and> paddle_speed (ai_move (Paddle_init 868 250) (ball_at 450 315 300 0) easy_settings) = 252
   \<and> paddle_speed (ai_move (Paddle_init 868 250) (ball_at 450 285 300 0) easy_settings) = - 252"
  using ai_move_easy [of easy_settings "ball_at 450 314 300 0" "Paddle_init 868 250"]
    ai_move_easy [of easy_settings "ball_at 450 315 300 0" "Paddle_init 868 250"]
    ai_move_easy [of easy_settings "ball_at 450 285 300 0" "Paddle_init 868 250"]
  by (simp add: easy_settings_def Paddle_init_def ball_at_def rect_defs config_defs)

subsection \<open>Particle counts\<close>

lemma py_int_half:
  assumes "2 \<le> base"
  shows "1 \<le> py_int (real_of_int base * (5 / 10))"
    and "py_int (real_of_int base * (5 / 10)) < base"
proof -
  have nonneg: "0 \<le> real_of_int base * (5 / 10)" using assms by simp
  have "(1::int) \<le> \<lfloor>real_of_int base * (5 / 10)\<rfloor>"
    using assms by (simp add: le_floor_iff)
  then show "1 \<le> py_int (real_of_int base * (5 / 10))"
    using nonneg by (simp add: py_int_def)
  have "\<lfloor>real_of_int base * (5 / 10)\<rfloor> < base"
    using assms by (simp add: floor_less_iff)
  then show "py_int (real_of_int base * (5 / 10)) < base"
    using nonneg by (simp add: py_int_def)
qed

lemma py_int_high:
  assumes "2 \<le> base"
  shows "base < py_int (real_of_int base * (18 / 10))"
proof -
  have nonneg: "0 \<le> real_of_int base * (18 / 10)" using assms by simp
  have "real_of_int (base + 1) \<le> real_of_int base * (18 / 10)" using assms by simp
  then have "base + 1 \<le> \<lfloor>real_of_int base * (18 / 10)\<rfloor>"
    by (simp only: le_floor_iff)
  then show ?thesis using nonneg by (simp add: py_int_def)
qed

text \<open>
  C8, as the code has it.  For every quality setting and every intensity the number
  of particles an impact burst emits lies in \<open>[2, 200]\<close>; and for every base count of
  at least 2 (the code uses 12 and 48) the counts of \<open>get_particle_count\<close> satisfy
  \<open>Low < Normal < High\<close>.
\<close>

theorem burst_count_bounded_quality_ordered:
  assumes "2 \<le> base"
    and "lo ''particle_quality'' = Some (PStr ''Low'')"
    and "no ''particle_quality'' = Some (PStr ''Normal'')"
    and "hi ''particle_quality'' = Some (PStr ''High'')"
  shows "2 \<le> emit_count settings intensity \<and> emit_count settings intensity \<le> 200
       \<and> int (length (emit_particles ps pos direction settings intensity draws))
           - int (length ps) = emit_count settings intensity
       \<and> get_particle_count lo base < get_particle_count no base
       \<and> get_particle_count no base < get_particle_count hi base"
proof -
  have c: "2 \<le> emit_count settings intensity \<and> emit_count settings intensity \<le> 200"
    by (simp add: emit_count_def Let_def)
  then have l: "int (length (emit_particles ps pos direction settings intensity draws))
                  - int (length ps) = emit_count settings intensity"
    by (simp add: emit_particles_def)
  have a: "get_particle_count lo base < get_particle_count no base"
    using assms py_int_half [of base]
    by (simp add: get_particle_count_def dict_get_def Let_def)
  have b: "get_particle_count no base < get_particle_count hi base"
    using assms py_int_high [of base]
    by (simp add: get_particle_count_def dict_get_def Let_def)
  from c l a b show ?thesis by simp
qed

theorem burst_count_bounded_quality_ordered_witness:
  "(2::int) \<le> 12
   \<and> quality_settings ''Low'' ''particle_quality'' = Some (PStr ''Low'')
   \<and> quality_settings ''Normal'' ''particle_quality'' = Some (PStr ''Normal'')
   \<and> quality_settings ''High'' ''particle_quality'' = Some (PStr ''High'')
   \<and> get_particle_count (quality_settings ''Low'') 12 = 6
   \<and> get_particle_count (quality_settings ''Normal'') 12 = 12
   \<and> get_particle_count (quality_settings ''High'') 12 = 21
   \<and> emit_count (quality_settings ''High'') 3 = 63"
  using burst_count_bounded_quality_ordered
    [of 12 "quality_settings ''Low''" "quality_settings ''Normal''"
        "quality_settings ''High''" "quality_settings ''High''" 3]
  by (simp add: quality_settings_def get_particle_count_def emit_count_def dict_get_def
        Let_def py_int_def)

text \<open>
  The claim as written, for every base count, fails at base count 1: \<open>Low\<close> gives
  \<open>max(1, int(0.5)) = 1\<close>, which is not below the \<open>Normal\<close> count 1.
\<close>

theorem quality_order_counterexample:
  "\<not> (get_particle_count (quality_settings ''Low'') 1
        < get_particle_count (quality_settings ''Normal'') 1)"
  by (simp add: quality_settings_def get_particle_count_def dict_get_def Let_def py_int_def)

subsection \<open>Scoring\<close>



subsection \<open>Ball and paddle collisions\<close>

lemma ball_speed_scaled:
  assumes "0 \<le> s"
  shows "ball_speed (b\<lparr>ball_vx := ball_vx b * s, ball_vy := ball_vy b * s\<rparr>) = ball_speed b * s"
proof -
  have "(ball_vx b * s) * (ball_vx b * s) + (ball_vy b * s) * (ball_vy b * s)
        = (ball_vx b * ball_vx b + ball_vy b * ball_vy b) * s\<^sup>2"
    by (simp add: power2_eq_square algebra_simps)
  then show ?thesis
    using assms by (simp add: ball_speed_def hypot_def real_sqrt_mult)
qed

lemma ball_speed_nonneg: "0 \<le> ball_speed b"
  by (simp add: ball_speed_def hypot_def)

lemma speed_up_speed:
  "ball_speed (speed_up b (ball_speed b))
     = (if ball_speed b < MAX_BALL_SPEED then ball_speed b * growth_factor else ball_speed b)"
proof -
  have "0 \<le> growth_factor" by (simp add: growth_factor_def BALL_SPEED_INCREMENT_def)
  then have "ball_speed (b\<lparr>ball_vx := ball_vx b * growth_factor,
                                ball_vy := ball_vy b * growth_factor\<rparr>)
             = ball_speed b * growth_factor"
    by (rule ball_speed_scaled)
  then show ?thesis
    by (simp only: speed_up_def Let_def growth_factor_def if_distrib [of ball_speed] if_cancel)
qed

lemma speed_up_vx:
  "ball_vx (speed_up b s) = (if s < MAX_BALL_SPEED then ball_vx b * growth_factor else ball_vx b)"
  by (simp add: speed_up_def Let_def growth_factor_def)

lemma growth_factor_gt_1: "1 < growth_factor"
  by (simp add: growth_factor_def BALL_SPEED_INCREMENT_def)

lemma deflect_left_vx: "ball_vx (deflect_left b l) = \<bar>ball_vx b\<bar>"
  by (simp add: deflect_left_def Let_def)

lemma deflect_right_vx: "ball_vx (deflect_right b r) = - \<bar>ball_vx b\<bar>"
  by (simp add: deflect_right_def Let_def)

lemma collide_left_ball:
  "colliderect (ball_rect (ball g)) (paddle_rect (left g)) \<Longrightarrow>
   ball (collide_left settings draws g)
     = speed_up (deflect_left (ball g) (left g)) (ball_speed (deflect_left (ball g) (left g)))"
  by (simp add: collide_left_def Let_def)

lemma collide_right_ball:
  "colliderect (ball_rect (ball g)) (paddle_rect (right g)) \<Longrightarrow>
   ball (collide_right settings draws g)
     = speed_up (deflect_right (ball g) (right g)) (ball_speed (deflect_right (ball g) (right g)))"
  by (simp add: collide_right_def Let_def)

lemma speed_up_bounds:
  "ball_speed (speed_up b (ball_speed b)) \<le> ball_speed b * growth_factor
   \<and> (ball_speed b < MAX_BALL_SPEED \<longrightarrow>
        ball_speed (speed_up b (ball_speed b)) = ball_speed b * growth_factor
      \<and> ball_speed (speed_up b (ball_speed b)) < MAX_BALL_SPEED * growth_factor)
   \<and> (MAX_BALL_SPEED \<le> ball_speed b \<longrightarrow>
        ball_speed (speed_up b (ball_speed b)) = ball_speed b)"
proof -
  have "ball_speed b \<le> ball_speed b * growth_factor"
    using ball_speed_nonneg [of b] growth_factor_gt_1
    by (simp add: mult_le_cancel_left1)
  moreover have "ball_speed b < MAX_BALL_SPEED \<Longrightarrow>
                 ball_speed b * growth_factor < MAX_BALL_SPEED * growth_factor"
    using growth_factor_gt_1 by simp
  ultimately show ?thesis by (simp add: speed_up_speed)
qed

text \<open>
  The horizontal velocity of a ball in play is never zero: a serve gives it a
  magnitude of at least \<open>BALL_SPEED_START\<close>, \<open>Ball.update\<close> does not touch it, and a
  collision keeps its magnitude or scales it up.
\<close>

lemma reset_vx_nonzero:
  "d \<noteq> 0 \<Longrightarrow> ball_vx (reset b (Some d) angle c) \<noteq> 0"
  "c \<noteq> 0 \<Longrightarrow> ball_vx (reset b None angle c) \<noteq> 0"
  by (simp_all add: reset_def Let_def BALL_SPEED_START_def abs_if)

lemma update_keeps_vx: "ball_vx (update b dt) = ball_vx b"
  by (simp add: update_def Let_def set_centerx_def set_centery_def)

lemma collide_keeps_vx_nonzero:
  assumes "ball_vx (ball g) \<noteq> 0"
  shows "ball_vx (ball (collide_left settings draws g)) \<noteq> 0"
    and "ball_vx (ball (collide_right settings draws g)) \<noteq> 0"
  using assms growth_factor_gt_1
  by (simp_all add: collide_left_def collide_right_def Let_def speed_up_vx
        deflect_left_vx deflect_right_vx)

text \<open>
  C1, as the code has it.  For every collision of a ball in play (horizontal velocity
  not zero) with a paddle, the horizontal velocity afterwards points away from the
  paddle: positive after the left paddle, negative after the right one.  The speed
  afterwards is at most the growth factor \<open>1 + BALL_SPEED_INCREMENT / 10\<close> times the speed
  the ball has once the hit offset has been added to its vertical velocity; and when
  that speed is at or above \<open>MAX_BALL_SPEED\<close> the collision does not scale it.
\<close>

theorem collision_turns_ball_away_and_scales:
  assumes "ball_vx (ball g) \<noteq> 0"
  shows "(colliderect (ball_rect (ball g)) (paddle_rect (left g)) \<longrightarrow>
            0 < ball_vx (ball (collide_left settings draws g))
          \<and> ball_speed (ball (collide_left settings draws g))
              \<le> ball_speed (deflect_left (ball g) (left g)) * growth_factor
          \<and> (MAX_BALL_SPEED \<le> ball_speed (deflect_left (ball g) (left g)) \<longrightarrow>
               ball_speed (ball (collide_left settings draws g))
                 = ball_speed (deflect_left (ball g) (left g))))
       \<and> (colliderect (ball_rect (ball g)) (paddle_rect (right g)) \<longrightarrow>
            ball_vx (ball (collide_right settings draws g)) < 0
          \<and> ball_speed (ball (collide_right settings draws g))
              \<le> ball_speed (deflect_right (ball g) (right g)) * growth_factor
          \<and> (MAX_BALL_SPEED \<le> ball_speed (deflect_right (ball g) (right g)) \<longrightarrow>
               ball_speed (ball (collide_right settings draws g))
                 = ball_speed (deflect_right (ball g) (right g))))"
proof -
  have gf: "0 < growth_factor" using growth_factor_gt_1 by simp
  have l: "0 < ball_vx (speed_up (deflect_left (ball g) (left g)) s)" for s
    using assms gf by (simp add: speed_up_vx deflect_left_vx)
  have r: "ball_vx (speed_up (deflect_right (ball g) (right g)) s) < 0" for s
    using assms gf by (simp add: speed_up_vx deflect_right_vx mult_less_0_iff)
  show ?thesis
  proof (intro conjI impI)
    assume c: "colliderect (ball_rect (ball g)) (paddle_rect (left g))"
    note b = collide_left_ball [OF c, of settings draws]
    note sb = speed_up_bounds [of "deflect_left (ball g) (left g)"]
    show "0 < ball_vx (ball (collide_left settings draws g))" using l b by simp
    show "ball_speed (ball (collide_left settings draws g))
              \<le> ball_speed (deflect_left (ball g) (left g)) * growth_factor"
      using sb b by simp
    { assume "MAX_BALL_SPEED \<le> ball_speed (deflect_left (ball g) (left g))"
      then show "ball_speed (ball (collide_left settings draws g))
                 = ball_speed (deflect_left (ball g) (left g))"
        using sb b by simp }
  next
    assume c: "colliderect (ball_rect (ball g)) (paddle_rect (right g))"
    note b = collide_right_ball [OF c, of settings draws]
    note sb = speed_up_bounds [of "deflect_right (ball g) (right g)"]
    show "ball_vx (ball (collide_right settings draws g)) < 0" using r b by simp
    show "ball_speed (ball (collide_right settings draws g))
              \<le> ball_speed (deflect_right (ball g) (right g)) * growth_factor"
      using sb b by simp
    { assume "MAX_BALL_SPEED \<le> ball_speed (deflect_right (ball g) (right g))"
      then show "ball_speed (ball (collide_right settings draws g))
                 = ball_speed (deflect_right (ball g) (right g))"
        using sb b by simp }
  qed
qed

lemma left_hit_ball:
  "ball (collide_left DEFAULT_SETTINGS fixed_impact_draws
           ((game_init True 0 1)\<lparr>ball := ball_at 30 350 (- 1150) 0\<rparr>))
   = (ball_at 30 350 (- 1150) 0)\<lparr>ball_x := 39, ball_vx := 1242, ball_vy := 162\<rparr>"
proof -
  have s: "sqrt 1345000 < 1200" by (rule real_less_lsqrt) simp_all
  show ?thesis
    using s
    by (simp add: collide_left_def colliderect_def deflect_left_def speed_up_def ball_speed_def
          hypot_def game_init_def Paddle_init_def ball_at_def Let_def rect_defs config_defs)
qed

lemma right_hit_ball:
  "ball (collide_right DEFAULT_SETTINGS fixed_impact_draws
           ((game_init True 0 1)\<lparr>ball := ball_at 870 300 300 0\<rparr>))
   = (ball_at 870 300 300 0)\<lparr>ball_x := 861, ball_vx := - 324, ball_vy := 0\<rparr>"
proof -
  have s: "sqrt 90000 < 1200" by (rule real_less_lsqrt) simp_all
  show ?thesis
    using s
    by (simp add: collide_right_def colliderect_def deflect_right_def speed_up_def ball_speed_def
          hypot_def game_init_def Paddle_init_def ball_at_def Let_def rect_defs config_defs)
qed

theorem collision_turns_ball_away_and_scales_witness:
  "ball_vx (ball ((game_init True 0 1)\<lparr>ball := ball_at 30 350 (- 1150) 0\<rparr>)) \<noteq> 0
   \<and> colliderect (ball_rect (ball ((game_init True 0 1)\<lparr>ball := ball_at 30 350 (- 1150) 0\<rparr>)))
        (paddle_rect (left ((game_init True 0 1)\<lparr>ball := ball_at 30 350 (- 1150) 0\<rparr>)))
   \<and> ball_vx (ball (collide_left DEFAULT_SETTINGS fixed_impact_draws
        ((game_init True 0 1)\<lparr>ball := ball_at 30 350 (- 1150) 0\<rparr>))) = 1242
   \<and> ball_speed (ball (collide_left DEFAULT_SETTINGS fixed_impact_draws
        ((game_init True 0 1)\<lparr>ball := ball_at 30 350 (- 1150) 0\<rparr>)))
      \<le> ball_speed (deflect_left (ball_at 30 350 (- 1150) 0) (Paddle_init 20 250)) * growth_factor
   \<and> ball_vx (ball ((game_init True 0 1)\<lparr>ball := ball_at 870 300 300 0\<rparr>)) \<noteq> 0
   \<and> colliderect (ball_rect (ball ((game_init True 0 1)\<lparr>ball := ball_at 870 300 300 0\<rparr>)))
        (paddle_rect (right ((game_init True 0 1)\<lparr>ball := ball_at 870 300 300 0\<rparr>)))
   \<and> ball_vx (ball (collide_right DEFAULT_SETTINGS fixed_impact_draws
        ((game_init True 0 1)\<lparr>ball := ball_at 870 300 300 0\<rparr>))) = - 324"
proof -
  have c1: "colliderect (ball_rect (ball ((game_init True 0 1)\<lparr>ball := ball_at 30 350 (- 1150) 0\<rparr>)))
        (paddle_rect (left ((game_init True 0 1)\<lparr>ball := ball_at 30 350 (- 1150) 0\<rparr>)))"
    by (simp add: colliderect_def game_init_def Paddle_init_def ball_at_def rect_defs config_defs)
  have c2: "colliderect (ball_rect (ball ((game_init True 0 1)\<lparr>ball := ball_at 870 300 300 0\<rparr>)))
        (paddle_rect (right ((game_init True 0 1)\<lparr>ball := ball_at 870 300 300 0\<rparr>)))"
    by (simp add: colliderect_def game_init_def Paddle_init_def ball_at_def rect_defs config_defs)
  have n1: "ball_vx (ball ((game_init True 0 1)\<lparr>ball := ball_at 30 350 (- 1150) 0\<rparr>)) \<noteq> 0"
    by (simp add: ball_at_def)
  have n2: "ball_vx (ball ((game_init True 0 1)\<lparr>ball := ball_at 870 300 300 0\<rparr>)) \<noteq> 0"
    by (simp add: ball_at_def)
  have l: "left ((game_init True 0 1)\<lparr>ball := ball_at 30 350 (- 1150) 0\<rparr>) = Paddle_init 20 250"
    by (simp add: game_init_def config_defs)
  show ?thesis
    using c1 c2 n1 n2
      collision_turns_ball_away_and_scales [OF n1, of DEFAULT_SETTINGS fixed_impact_draws]
      collision_turns_ball_away_and_scales [OF n2, of DEFAULT_SETTINGS fixed_impact_draws]
    by (simp add: left_hit_ball right_hit_ball l)
qed

text \<open>
  The claim as written fails for a ball that comes in at 1150 px/s and hits the lower
  end of the left paddle: the deflection raises the speed before the scale-up, so the
  speed afterwards is above 1.08 times the speed before the collision, and it is above
  \<open>MAX_BALL_SPEED\<close> as well.
\<close>

theorem collision_speed_counterexample:
  "colliderect (ball_rect (ball_at 30 350 (- 1150) 0)) (paddle_rect (Paddle_init 20 250))
   \<and> \<not> (ball_speed (ball (collide_left DEFAULT_SETTINGS fixed_impact_draws
                ((game_init True 0 1)\<lparr>ball := ball_at 30 350 (- 1150) 0\<rparr>)))
          \<le> ball_speed (ball_at 30 350 (- 1150) 0) * growth_factor)
   \<and> \<not> (ball_speed (ball (collide_left DEFAULT_SETTINGS fixed_impact_draws
                ((game_init True 0 1)\<lparr>ball := ball_at 30 350 (- 1150) 0\<rparr>)))
          \<le> MAX_BALL_SPEED)"
proof -
  have a: "1242 < sqrt 1568808" by (rule real_less_rsqrt) simp
  have b: "1200 < sqrt 1568808" by (rule real_less_rsqrt) simp
  have pre: "ball_speed (ball_at 30 350 (- 1150) 0) * growth_factor = 1242"
  proof -
    have "sqrt 1322500 = sqrt (1150\<^sup>2)" by simp
    also have "\<dots> = 1150" by (simp only: real_sqrt_abs abs_numeral)
    finally show ?thesis
      by (simp add: ball_speed_def hypot_def ball_at_def growth_factor_def BALL_SPEED_INCREMENT_def)
  qed
  have post: "ball_speed (ball (collide_left DEFAULT_SETTINGS fixed_impact_draws
                ((game_init True 0 1)\<lparr>ball := ball_at 30 350 (- 1150) 0\<rparr>))) = sqrt 1568808"
    by (simp add: left_hit_ball ball_speed_def hypot_def)
  have c: "colliderect (ball_rect (ball_at 30 350 (- 1150) 0)) (paddle_rect (Paddle_init 20 250))"
    by (simp add: colliderect_def Paddle_init_def ball_at_def rect_defs config_defs)
  show ?thesis using a b c by (simp add: pre post MAX_BALL_SPEED_def)
qed

subsection \<open>The frame's time step\<close>

text \<open>
  What each block of a frame leaves alone: the collision blocks and the scoring block
  do not move a paddle, and they only append to the particle list.
\<close>

lemma collide_left_paddles:
  "paddle_y (left (collide_left settings draws g)) = paddle_y (left g)"
  "paddle_rect (left (collide_left settings draws g)) = paddle_rect (left g)"
  "right (collide_left settings draws g) = right g"
  by (simp_all add: collide_left_def Let_def)

lemma collide_right_paddles:
  "paddle_y (right (collide_right settings draws g)) = paddle_y (right g)"
  "paddle_rect (right (collide_right settings draws g)) = paddle_rect (right g)"
  "left (collide_right settings draws g) = left g"
  by (simp_all add: collide_right_def Let_def)

lemma collide_left_particles:
  "\<exists>ps. particles (collide_left settings draws g) = particles g @ ps"
  by (simp add: collide_left_def Let_def emit_particles_def)

lemma collide_right_particles:
  "\<exists>ps. particles (collide_right settings draws g) = particles g @ ps"
  by (simp add: collide_right_def Let_def emit_particles_def)

lemma scoring_keeps:
  assumes "snd (scoring stw settings inp g) = Continue g'"
  shows "left g' = left g" and "right g' = right g"
    and "\<exists>ps. particles g' = particles g @ ps"
  using assms
  by (auto simp add: scoring_def score_exit_def serve_def win_logic_def Let_def
        emit_score_burst_def split: if_splits option.splits)

lemma scoring_no_exit:
  assumes "\<not> rect_right (ball_rect (ball g)) < 0" and "\<not> rect_left (ball_rect (ball g)) > WIDTH"
  shows "scoring stw settings inp g = (None, Continue g)"
  using assms by (simp add: scoring_def score_exit_def)

lemma advance_particles_keeps:
  "left (advance_particles dt g) = left g"
  "right (advance_particles dt g) = right g"
  "ball (advance_particles dt g) = ball g"
  "particles (advance_particles dt g)
     = filter (\<lambda>p. \<not> is_dead p) (map (\<lambda>p. Particle_update p dt) (particles g))"
  by (simp_all add: advance_particles_def Let_def)

lemma kinematics_fields:
  "left (kinematics settings dt g) = move (left g) dt"
  "right (kinematics settings dt g)
     = move (if right_ai g then ai_move (right g) (ball g) settings else right g) dt"
  "ball (kinematics settings dt g) = (if paused g then ball g else update (ball g) dt)"
  "particles (kinematics settings dt g) = particles g"
  by (simp_all add: kinematics_def Let_def)

lemma frame_body_Continue:
  assumes "snd (frame_body stw settings dt inp g) = Continue g'"
  obtains g7 where
    "snd (scoring stw settings inp
            (collide_right settings (right_draws inp)
               (collide_left settings (left_draws inp) (kinematics settings dt g)))) = Continue g7"
    and "g' = advance_particles dt g7"
  using assms
  by (auto simp add: frame_body_def Let_def split: prod.splits outcome.splits)

lemma frame_body_free_flight:
  assumes "free_flight settings dt g"
  shows "frame_body stw settings dt inp g
           = (None, Continue (advance_particles dt (kinematics settings dt g)))"
proof -
  let ?g4 = "kinematics settings dt g"
  from assms have l: "collide_left settings (left_draws inp) ?g4 = ?g4"
    by (simp add: free_flight_def Let_def collide_left_def)
  from assms have r: "collide_right settings (right_draws inp) ?g4 = ?g4"
    by (simp add: free_flight_def Let_def collide_right_def)
  from assms have s: "scoring stw settings inp ?g4 = (None, Continue ?g4)"
    by (intro scoring_no_exit) (simp_all add: free_flight_def Let_def)
  show ?thesis by (simp add: frame_body_def Let_def l r s)
qed

lemma update_x: "ball_x (update b dt) = ball_x b + ball_vx b * dt"
  by (simp add: update_def Let_def set_centerx_def set_centery_def)

lemma still_paddle_rect:
  "paddle_rect (move (Paddle_init a 250) dt) = mkRect a 250 PADDLE_WIDTH PADDLE_HEIGHT"
  by (simp add: move_def Paddle_init_def mkRect_def py_int_def Let_def HEIGHT_def
        PADDLE_HEIGHT_def)

lemma drifting_ball_rect:
  assumes "v * dt = d" and "0 \<le> d"
  shows "ball_rect (update (ball_at 450 300 v 0) dt) = mkRect (443 + \<lfloor>d\<rfloor>) 293 14 14"
  using assms
  by (simp add: update_def ball_at_def mkRect_def py_int_def Let_def set_centerx_def
        set_centery_def HEIGHT_def BALL_SIZE_def)

lemma drifting_game_fields:
  "left (drifting_game v) = Paddle_init 20 250"
  "right (drifting_game v) = Paddle_init 868 250"
  "ball (drifting_game v) = ball_at 450 300 v 0"
  "\<not> right_ai (drifting_game v)" "\<not> paused (drifting_game v)"
  "particles (drifting_game v) = []"
  by (simp_all add: drifting_game_def game_init_def WIDTH_def HEIGHT_def PADDLE_WIDTH_def
        PADDLE_HEIGHT_def)

lemma drifting_free_flight:
  assumes "v * dt = 100"
  shows "free_flight settings dt (drifting_game v)"
proof -
  have b: "ball_rect (update (ball_at 450 300 v 0) dt) = mkRect 543 293 14 14"
    using drifting_ball_rect [OF assms] by simp
  show ?thesis
    by (simp add: free_flight_def Let_def kinematics_fields drifting_game_fields
          still_paddle_rect b colliderect_def mkRect_def rect_left_def rect_right_def
          WIDTH_def PADDLE_WIDTH_def PADDLE_HEIGHT_def)
qed

lemma fixed_input_tick: "tick_ms (fixed_input ms quit) = ms"
  by (simp add: fixed_input_def)

lemma long_frame_drift:
  "\<exists>ms v g'. C < frame_dt ms \<and> v \<noteq> 0
      \<and> snd (frame stw settings (fixed_input ms False) (drifting_game v)) = Continue g'
      \<and> ball_x (ball g') = 450 + v * frame_dt ms"
proof -
  obtain n :: nat where n: "C < real n" using reals_Archimedean2 by blast
  let ?ms = "1000 * Suc n" and ?v = "100 / real (Suc n)"
  have dt: "frame_dt ?ms = real (Suc n)" by (simp add: frame_dt_def)
  from n have "C < real (Suc n)" by simp
  then have big: "C < frame_dt ?ms" by (simp only: dt)
  have v: "?v \<noteq> 0" by simp
  have cancel: "x \<noteq> 0 \<Longrightarrow> 100 / x * x = (100::real)" for x by simp
  have "real (Suc n) \<noteq> 0" by simp
  then have "?v * real (Suc n) = 100" by (rule cancel)
  then have ff: "free_flight settings (real (Suc n)) (drifting_game ?v)"
    by (rule drifting_free_flight)
  let ?g' = "advance_particles (real (Suc n)) (kinematics settings (real (Suc n)) (drifting_game ?v))"
  have fr: "snd (frame stw settings (fixed_input ?ms False) (drifting_game ?v)) = Continue ?g'"
    by (simp only: frame_def fixed_input_tick dt frame_body_free_flight [OF ff] snd_conv)
  have np: "\<not> paused (drifting_game ?v)" by (rule drifting_game_fields)
  have "ball ?g' = update (ball (drifting_game ?v)) (real (Suc n))"
    using np by (simp add: advance_particles_keeps kinematics_fields)
  then have "ball_x (ball ?g') = 450 + ?v * real (Suc n)"
    by (simp only: update_x drifting_game_fields) (simp add: ball_at_def)
  then have bx: "ball_x (ball ?g') = 450 + ?v * frame_dt ?ms" by (simp only: dt)
  from big v fr bx show ?thesis by blast
qed

text \<open>
  C2, as the code has it.  The time step of a frame is the clock's milliseconds
  divided by 1000, as they are, and it is the value every integration of the frame
  uses: in the state the frame leaves, each paddle is where \<open>Paddle.move\<close> puts it for
  that step, the ball of a frame in free flight is the one \<open>Ball.update\<close> gives for that
  step, and the particles are the ones of the frame advanced by \<open>Particle.update\<close> for
  that step, the dead ones removed.  The step has no cap: for every bound there is a
  frame whose step is larger and whose ball has moved by its velocity times that
  step.
\<close>

theorem frame_integrates_with_unclamped_dt:
  "frame_dt (tick_ms inp) = real (tick_ms inp) / 1000
   \<and> (\<forall>g'. snd (frame stw settings inp g) = Continue g' \<longrightarrow>
          paddle_y (left g') = paddle_y (move (left g) (frame_dt (tick_ms inp)))
        \<and> paddle_y (right g')
            = paddle_y (move (if right_ai g then ai_move (right g) (ball g) settings else right g)
                          (frame_dt (tick_ms inp)))
        \<and> (free_flight settings (frame_dt (tick_ms inp)) g \<longrightarrow>
              ball g' = update (ball g) (frame_dt (tick_ms inp)))
        \<and> (\<exists>ps. particles g'
                  = filter (\<lambda>p. \<not> is_dead p)
                      (map (\<lambda>p. Particle_update p (frame_dt (tick_ms inp))) (particles g @ ps))))
   \<and> (\<exists>ms v g'. C < frame_dt ms \<and> v \<noteq> 0
          \<and> snd (frame stw settings (fixed_input ms False) (drifting_game v)) = Continue g'
          \<and> ball_x (ball g') = 450 + v * frame_dt ms)"
proof (intro conjI allI impI)
  show "frame_dt (tick_ms inp) = real (tick_ms inp) / 1000" by (simp add: frame_dt_def)
next
  show "\<exists>ms v g'. C < frame_dt ms \<and> v \<noteq> 0
          \<and> snd (frame stw settings (fixed_input ms False) (drifting_game v)) = Continue g'
          \<and> ball_x (ball g') = 450 + v * frame_dt ms"
    by (rule long_frame_drift)
next
  fix g'
  assume c: "snd (frame stw settings inp g) = Continue g'"
  let ?dt = "frame_dt (tick_ms inp)"
  let ?g4 = "kinematics settings ?dt g"
  let ?g5 = "collide_left settings (left_draws inp) ?g4"
  let ?g6 = "collide_right settings (right_draws inp) ?g5"
  from c have "snd (frame_body stw settings ?dt inp g) = Continue g'" by (simp add: frame_def)
  then obtain g7 where s: "snd (scoring stw settings inp ?g6) = Continue g7"
    and g': "g' = advance_particles ?dt g7"
    by (rule frame_body_Continue)
  note k = scoring_keeps [OF s]
  show "paddle_y (left g') = paddle_y (move (left g) ?dt)"
    by (simp add: g' advance_particles_keeps k collide_right_paddles collide_left_paddles
          kinematics_fields)
  show "paddle_y (right g')
          = paddle_y (move (if right_ai g then ai_move (right g) (ball g) settings else right g) ?dt)"
    by (simp add: g' advance_particles_keeps k collide_right_paddles collide_left_paddles
          kinematics_fields)
  show "\<exists>ps. particles g'
                  = filter (\<lambda>p. \<not> is_dead p)
                      (map (\<lambda>p. Particle_update p ?dt) (particles g @ ps))"
  proof -
    obtain p1 where p1: "particles ?g5 = particles ?g4 @ p1"
      using collide_left_particles by blast
    obtain p2 where p2: "particles ?g6 = particles ?g5 @ p2"
      using collide_right_particles by blast
    obtain p3 where p3: "particles g7 = particles ?g6 @ p3"
      using k(3) by blast
    have "particles g7 = particles g @ (p1 @ p2 @ p3)"
      by (simp add: p3 p2 p1 kinematics_fields)
    then show ?thesis
      by (simp only: g' advance_particles_keeps) blast
  qed
  { assume ff: "free_flight settings ?dt g"
    have "frame stw settings inp g = (None, Continue (advance_particles ?dt ?g4))"
      using frame_body_free_flight [OF ff] by (simp add: frame_def)
    with c have "g' = advance_particles ?dt ?g4" by simp
    moreover from ff have "\<not> paused g" by (simp add: free_flight_def Let_def)
    ultimately show "ball g' = update (ball g) ?dt"
      by (simp add: advance_particles_keeps kinematics_fields) }
qed

theorem frame_integrates_with_unclamped_dt_witness:
  "free_flight DEFAULT_SETTINGS (frame_dt (tick_ms (fixed_input 2000 False)))
     ((drifting_game 100)\<lparr>left := (Paddle_init 20 250)\<lparr>paddle_speed := 100\<rparr>\<rparr>)
   \<and> (\<exists>g'. snd (frame SCORE_TO_WIN DEFAULT_SETTINGS (fixed_input 2000 False)
                  ((drifting_game 100)\<lparr>left := (Paddle_init 20 250)\<lparr>paddle_speed := 100\<rparr>\<rparr>))
               = Continue g'
           \<and> paddle_y (left g') = 450 \<and> paddle_y (right g') = 250
           \<and> ball_x (ball g') = 650)"
proof -
  let ?g = "(drifting_game 100)\<lparr>left := (Paddle_init 20 250)\<lparr>paddle_speed := 100\<rparr>\<rparr>"
  let ?inp = "fixed_input 2000 False"
  have dt: "frame_dt (tick_ms ?inp) = 2" by (simp add: frame_dt_def fixed_input_def)
  have g: "left ?g = (Paddle_init 20 250)\<lparr>paddle_speed := 100\<rparr>"
    "right ?g = Paddle_init 868 250" "\<not> right_ai ?g" "\<not> paused ?g"
    "ball ?g = ball_at 450 300 100 0"
    by (simp_all add: drifting_game_fields)
  have plr: "paddle_rect (move ((Paddle_init 20 250)\<lparr>paddle_speed := 100\<rparr>) 2)
               = mkRect 20 450 PADDLE_WIDTH PADDLE_HEIGHT"
    by (simp add: move_def Paddle_init_def mkRect_def py_int_def Let_def HEIGHT_def
          PADDLE_HEIGHT_def)
  have pl': "paddle_y (move ((Paddle_init 20 250)\<lparr>paddle_speed := 100\<rparr>) 2) = 450"
    by (simp add: move_def Paddle_init_def mkRect_def Let_def HEIGHT_def PADDLE_HEIGHT_def)
  have b: "ball_rect (update (ball_at 450 300 100 0) 2) = mkRect 643 293 14 14"
    using drifting_ball_rect [of 100 2 200] by simp
  have k: "left (kinematics DEFAULT_SETTINGS 2 ?g)
             = move ((Paddle_init 20 250)\<lparr>paddle_speed := 100\<rparr>) 2"
    "right (kinematics DEFAULT_SETTINGS 2 ?g) = move (Paddle_init 868 250) 2"
    "ball (kinematics DEFAULT_SETTINGS 2 ?g) = update (ball_at 450 300 100 0) 2"
    by (simp_all only: kinematics_fields g if_False)
  have "free_flight DEFAULT_SETTINGS 2 ?g"
    unfolding free_flight_def Let_def k plr still_paddle_rect b
    using g(4)
    by (simp add: colliderect_def mkRect_def rect_left_def rect_right_def
          WIDTH_def PADDLE_WIDTH_def PADDLE_HEIGHT_def)
  then have ff: "free_flight DEFAULT_SETTINGS (frame_dt (tick_ms ?inp)) ?g"
    by (simp only: dt)
  have fr: "snd (frame SCORE_TO_WIN DEFAULT_SETTINGS ?inp ?g)
              = Continue (advance_particles 2 (kinematics DEFAULT_SETTINGS 2 ?g))"
    using frame_body_free_flight [OF ff, of SCORE_TO_WIN ?inp] by (simp add: frame_def dt)
  have pr: "paddle_y (move (Paddle_init 868 250) 2) = 250"
    by (simp add: move_def Paddle_init_def mkRect_def Let_def HEIGHT_def PADDLE_HEIGHT_def)
  have bx: "ball_x (update (ball_at 450 300 100 0) 2) = 650"
    by (simp add: update_x ball_at_def)
  from frame_integrates_with_unclamped_dt [of ?inp SCORE_TO_WIN DEFAULT_SETTINGS ?g 0]
  have "\<forall>g'. snd (frame SCORE_TO_WIN DEFAULT_SETTINGS ?inp ?g) = Continue g' \<longrightarrow>
          paddle_y (left g') = paddle_y (move (left ?g) (frame_dt (tick_ms ?inp)))
        \<and> paddle_y (right g')
            = paddle_y (move (if right_ai ?g then ai_move (right ?g) (ball ?g) DEFAULT_SETTINGS
                              else right ?g) (frame_dt (tick_ms ?inp)))
        \<and> (free_flight DEFAULT_SETTINGS (frame_dt (tick_ms ?inp)) ?g \<longrightarrow>
              ball g' = update (ball ?g) (frame_dt (tick_ms ?inp)))"
    by blast
  with fr ff have
    "paddle_y (left (advance_particles 2 (kinematics DEFAULT_SETTINGS 2 ?g)))
       = paddle_y (move (left ?g) (frame_dt (tick_ms ?inp)))
     \<and> paddle_y (right (advance_particles 2 (kinematics DEFAULT_SETTINGS 2 ?g)))
       = paddle_y (move (if right_ai ?g then ai_move (right ?g) (ball ?g) DEFAULT_SETTINGS
                         else right ?g) (frame_dt (tick_ms ?inp)))
     \<and> ball (advance_particles 2 (kinematics DEFAULT_SETTINGS 2 ?g))
       = update (ball ?g) (frame_dt (tick_ms ?inp))"
    by blast
  then have "paddle_y (left (advance_particles 2 (kinematics DEFAULT_SETTINGS 2 ?g))) = 450
     \<and> paddle_y (right (advance_particles 2 (kinematics DEFAULT_SETTINGS 2 ?g))) = 250
     \<and> ball_x (ball (advance_particles 2 (kinematics DEFAULT_SETTINGS 2 ?g))) = 650"
    by (simp only: dt g if_False pl' pr bx)
  with ff fr show ?thesis by blast
qed

text \<open>
  The claim as written fails.  A step of at most \<open>C\<close> would move the ball of the
  drifting game by at most \<open>C\<close> times its speed in any frame, and no \<open>C\<close> does that.
\<close>

theorem frame_step_unbounded_counterexample:
  "\<not> (\<exists>C. \<forall>ms v g'.
         snd (frame SCORE_TO_WIN DEFAULT_SETTINGS (fixed_input ms False) (drifting_game v))
           = Continue g'
         \<longrightarrow> \<bar>ball_x (ball g') - 450\<bar> \<le> \<bar>v\<bar> * C)"
proof
  assume "\<exists>C. \<forall>ms v g'.
         snd (frame SCORE_TO_WIN DEFAULT_SETTINGS (fixed_input ms False) (drifting_game v))
           = Continue g'
         \<longrightarrow> \<bar>ball_x (ball g') - 450\<bar> \<le> \<bar>v\<bar> * C"
  then obtain C where C: "\<And>ms v g'.
         snd (frame SCORE_TO_WIN DEFAULT_SETTINGS (fixed_input ms False) (drifting_game v))
           = Continue g'
         \<Longrightarrow> \<bar>ball_x (ball g') - 450\<bar> \<le> \<bar>v\<bar> * C"
    by blast
  obtain ms v g' where big: "C < frame_dt ms" and v: "v \<noteq> 0"
    and fr: "snd (frame SCORE_TO_WIN DEFAULT_SETTINGS (fixed_input ms False) (drifting_game v))
               = Continue g'"
    and bx: "ball_x (ball g') = 450 + v * frame_dt ms"
    using long_frame_drift [of C SCORE_TO_WIN DEFAULT_SETTINGS] by blast
  have nn: "0 \<le> frame_dt ms" by (simp add: frame_dt_def)
  from C [OF fr] bx have "\<bar>v * frame_dt ms\<bar> \<le> \<bar>v\<bar> * C" by simp
  then have "\<bar>v\<bar> * frame_dt ms \<le> \<bar>v\<bar> * C" using nn by (simp add: abs_mult)
  then have "frame_dt ms \<le> C" using v by simp
  with big show False by simp
qed

subsection \<open>Win condition\<close>

text \<open>
  C6, as the code has it.  With \<open>SCORE_TO_WIN = 5\<close>, in a frame in which the ball leaves
  the board and a score is then at least 5, the winner banner is shown; if the winner
  screen did not end on a quit event, both scores are then 0 and the ball has been
  served anew from the centre; if it did, \<open>run_game\<close> returns.  With the win condition
  disabled (\<open>SCORE_TO_WIN\<close> unset or 0) the win logic changes nothing, and a point adds
  one to a score whatever its value, so the scores have no bound.
\<close>

theorem win_resets_unless_quit:
  assumes exit: "rect_right (ball_rect (ball g)) < 0 \<or> rect_left (ball_rect (ball g)) > WIDTH"
  shows "(5 \<le> score_left (fst (score_exit g)) \<or> 5 \<le> score_right (fst (score_exit g)) \<longrightarrow>
            fst (scoring SCORE_TO_WIN settings inp g)
              = Some (if 5 \<le> score_left (fst (score_exit g)) then ''Left wins!'' else ''Right wins!'')
          \<and> (quit_requested inp \<longrightarrow> snd (scoring SCORE_TO_WIN settings inp g) = Returned)
          \<and> (\<not> quit_requested inp \<longrightarrow>
                (\<exists>g'. snd (scoring SCORE_TO_WIN settings inp g) = Continue g'
                      \<and> score_left g' = 0 \<and> score_right g' = 0
                      \<and> ball g' = reset (ball (score_and_serve settings (burst_draws inp)
                                                  (serve_angle inp) g))
                                     None (win_angle inp) (win_choice inp)
                      \<and> ball_x (ball g') = 450 \<and> ball_y (ball g') = 300)))
       \<and> (stw = None \<or> stw = Some 0 \<longrightarrow>
            win_logic stw (quit_requested inp) (win_angle inp) (win_choice inp) g = (None, Continue g)
          \<and> (\<exists>g'. scoring stw settings inp g = (None, Continue g')
                  \<and> score_left g' = score_left (fst (score_exit g))
                  \<and> score_right g' = score_right (fst (score_exit g))
                  \<and> score_left g' + score_right g' = score_left g + score_right g + 1))"
  using exit
  by (auto simp add: scoring_def score_and_serve_def score_exit_def serve_def win_logic_def
        SCORE_TO_WIN_def Let_def reset_def rect_defs config_defs)

theorem win_resets_unless_quit_witness:
  "rect_left (ball_rect (ball ((game_init True 0 1)\<lparr>ball := ball_at 913 300 300 0,
                                                        score_left := 4\<rparr>))) > WIDTH
   \<and> 5 \<le> score_left (fst (score_exit ((game_init True 0 1)\<lparr>ball := ball_at 913 300 300 0,
                                                               score_left := 4\<rparr>)))
   \<and> \<not> quit_requested (fixed_input 7 False)
   \<and> fst (scoring SCORE_TO_WIN DEFAULT_SETTINGS (fixed_input 7 False)
        ((game_init True 0 1)\<lparr>ball := ball_at 913 300 300 0, score_left := 4\<rparr>))
      = Some ''Left wins!''
   \<and> (\<exists>g'. snd (scoring SCORE_TO_WIN DEFAULT_SETTINGS (fixed_input 7 False)
                ((game_init True 0 1)\<lparr>ball := ball_at 913 300 300 0, score_left := 4\<rparr>))
             = Continue g'
           \<and> score_left g' = 0 \<and> score_right g' = 0 \<and> ball_vx (ball g') = 300)
   \<and> quit_requested (fixed_input 7 True)
   \<and> snd (scoring SCORE_TO_WIN DEFAULT_SETTINGS (fixed_input 7 True)
        ((game_init True 0 1)\<lparr>ball := ball_at 913 300 300 0, score_left := 4\<rparr>)) = Returned
   \<and> (\<exists>g'. scoring (Some 0) DEFAULT_SETTINGS (fixed_input 7 False)
                ((game_init True 0 1)\<lparr>ball := ball_at 913 300 300 0, score_left := 4\<rparr>)
             = (None, Continue g')
           \<and> score_left g' = 5 \<and> score_right g' = 0)"
proof -
  have e: "rect_right (ball_rect (ball ((game_init True 0 1)\<lparr>ball := ball_at 913 300 300 0,
                                                              score_left := 4\<rparr>))) < 0
           \<or> rect_left (ball_rect (ball ((game_init True 0 1)\<lparr>ball := ball_at 913 300 300 0,
                                                              score_left := 4\<rparr>))) > WIDTH"
    by (simp add: ball_at_def rect_defs config_defs)
  show ?thesis
    using win_resets_unless_quit [OF e, of DEFAULT_SETTINGS "fixed_input 7 False" "Some 0"]
      win_resets_unless_quit [OF e, of DEFAULT_SETTINGS "fixed_input 7 True" "Some 0"]
    by (simp add: scoring_def score_and_serve_def score_exit_def serve_def win_logic_def
          SCORE_TO_WIN_def Let_def reset_def fixed_input_def game_init_def ball_at_def
          rect_defs config_defs)
qed

text \<open>
  The claim as written fails when the winner screen ends on a quit event: the loop
  returns with the fifth point scored and nothing reset.
\<close>

theorem win_quit_counterexample:
  "rect_left (ball_rect (ball_at 913 300 300 0)) > WIDTH
   \<and> score_left (fst (score_exit ((game_init True 0 1)\<lparr>ball := ball_at 913 300 300 0,
                                                          score_left := 4\<rparr>))) = 5
   \<and> scoring SCORE_TO_WIN DEFAULT_SETTINGS (fixed_input 7 True)
        ((game_init True 0 1)\<lparr>ball := ball_at 913 300 300 0, score_left := 4\<rparr>)
      = (Some ''Left wins!'', Returned)"
  by (simp add: scoring_def score_exit_def serve_def win_logic_def SCORE_TO_WIN_def Let_def
        fixed_input_def ball_at_def rect_defs config_defs)

subsection \<open>Settings round trip\<close>

lemma map_add_absorb:
  assumes "dom m \<subseteq> dom n"
  shows "m ++ n = n"
proof
  fix k
  show "(m ++ n) k = n k"
  proof (cases "n k")
    case None
    then have "k \<notin> dom m" using assms by auto
    then show ?thesis using None by (simp add: map_add_def domIff)
  next
    case (Some v)
    then show ?thesis by (simp add: map_add_def)
  qed
qed

lemma dom_DEFAULT_SETTINGS: "dom DEFAULT_SETTINGS = set settings_fields"
  by (auto simp add: DEFAULT_SETTINGS_def settings_fields_def)

lemma dom_DEFAULT_CONTROLS: "dom DEFAULT_CONTROLS = set control_actions"
  by (auto simp add: DEFAULT_CONTROLS_def control_actions_def)

lemma settings_record_controls:
  assumes "settings_record s"
  obtains c where "s ''controls'' = Some (PDict c)" and "dom DEFAULT_CONTROLS \<subseteq> dom c"
proof -
  from assms obtain c where c: "s ''controls'' = Some (PDict c)"
    and l: "list_all (\<lambda>a. c a \<noteq> None) control_actions"
    by (auto simp add: settings_record_def split: option.splits pyval.splits)
  from l have "dom DEFAULT_CONTROLS \<subseteq> dom c"
    by (auto simp add: dom_DEFAULT_CONTROLS list_all_iff)
  with c show ?thesis using that by blast
qed

lemma settings_record_dom:
  assumes "settings_record s"
  shows "dom DEFAULT_SETTINGS \<subseteq> dom s"
  using assms by (auto simp add: settings_record_def dom_DEFAULT_SETTINGS list_all_iff)

lemma load_pickled_record:
  assumes "settings_record s" and "primary_file fs = Some (Pickled (PDict s))"
  shows "load_settings fs = s"
proof -
  from assms(1) obtain c where c: "s ''controls'' = Some (PDict c)"
    and d: "dom DEFAULT_CONTROLS \<subseteq> dom c"
    by (rule settings_record_controls)
  have m: "DEFAULT_SETTINGS ++ s = s"
    using settings_record_dom [OF assms(1)] by (rule map_add_absorb)
  have n: "DEFAULT_CONTROLS ++ c = c" using d by (rule map_add_absorb)
  have "load_settings fs = (DEFAULT_SETTINGS ++ s)(''controls'' \<mapsto> PDict (DEFAULT_CONTROLS ++ c))"
    using assms(2) c by (simp add: load_settings_def Let_def)
  also have "\<dots> = s(''controls'' \<mapsto> PDict c)" by (simp only: m n)
  also have "\<dots> = s" using c by (simp add: fun_upd_idem)
  finally show ?thesis .
qed

text \<open>What \<open>load_settings\<close> returns is a settings record, whatever the file holds.\<close>

lemma load_settings_record: "settings_record (load_settings fs)"
proof -
  have d: "settings_record (DEFAULT_SETTINGS(''controls'' \<mapsto> PDict DEFAULT_CONTROLS))"
    by (simp add: settings_record_def settings_fields_def control_actions_def
          DEFAULT_SETTINGS_def DEFAULT_CONTROLS_def)
  have d': "settings_record DEFAULT_SETTINGS"
    by (simp add: settings_record_def settings_fields_def control_actions_def
          DEFAULT_SETTINGS_def DEFAULT_CONTROLS_def)
  have m: "settings_record ((DEFAULT_SETTINGS ++ data)(''controls'' \<mapsto> PDict (DEFAULT_CONTROLS ++ c)))"
    for data c
    by (simp add: settings_record_def settings_fields_def control_actions_def
          DEFAULT_SETTINGS_def DEFAULT_CONTROLS_def map_add_def split: option.splits)
  have m0: "DEFAULT_CONTROLS ++ Map.empty = DEFAULT_CONTROLS" by simp
  show ?thesis
    using d d' m m [of _ Map.empty]
    by (simp add: load_settings_def Let_def split: option.splits content.splits pyval.splits)
qed

text \<open>
  On the primary path the round trip holds: when the configuration directory exists
  or can be made and the file can be written, saving a settings record and loading it
  again gives the record that was saved, controls included, and a control that was
  unbound (\<open>None\<close>) is unbound in the loaded record.
\<close>

lemma settings_round_trip:
  assumes "settings_record s" and "primary_isdir fs \<or> can_mkdir_primary fs" and "can_write fs"
  shows "\<exists>fs'. save_settings s fs = Inr fs'
           \<and> load_settings fs' = s
           \<and> controls_of (load_settings fs') = controls_of s
           \<and> (\<forall>a. controls_of s a = Some PNone \<longrightarrow> controls_of (load_settings fs') a = Some PNone)"
proof -
  let ?fs = "fs\<lparr>primary_isdir := True, primary_file := Some (Pickled (PDict s))\<rparr>"
  have sv: "save_settings s fs = Inr ?fs"
    using assms(2,3) by (simp add: save_settings_def ensure_config_dir_def Let_def)
  have ld: "load_settings ?fs = s"
    using assms(1) by (rule load_pickled_record) simp
  from sv ld show ?thesis by simp
qed

lemma settings_round_trip_example:
  "settings_record unbound_reset_settings
   \<and> (primary_isdir fresh_filesystem \<or> can_mkdir_primary fresh_filesystem)
   \<and> can_write fresh_filesystem
   \<and> controls_of unbound_reset_settings ''reset'' = Some PNone
   \<and> (\<exists>fs'. save_settings unbound_reset_settings fresh_filesystem = Inr fs'
           \<and> load_settings fs' = unbound_reset_settings
           \<and> controls_of (load_settings fs') ''reset'' = Some PNone)"
proof -
  have r: "settings_record unbound_reset_settings"
    by (simp add: unbound_reset_settings_def settings_record_def settings_fields_def
          control_actions_def DEFAULT_SETTINGS_def DEFAULT_CONTROLS_def)
  have m: "primary_isdir fresh_filesystem \<or> can_mkdir_primary fresh_filesystem"
    by (simp add: fresh_filesystem_def)
  have w: "can_write fresh_filesystem" by (simp add: fresh_filesystem_def)
  have u: "controls_of unbound_reset_settings ''reset'' = Some PNone"
    by (simp add: controls_of_def unbound_reset_settings_def)
  show ?thesis
    using r m w u settings_round_trip [OF r m w] by auto
qed

text \<open>
  When the primary directory cannot be made, \<open>save_settings\<close> writes the fallback
  file, which \<open>load_settings\<close> does not read: the load returns what it returned before
  the save.
\<close>

lemma save_to_fallback_not_loaded:
  assumes "\<not> primary_isdir fs" and "\<not> can_mkdir_primary fs" and "can_mkdir_fallback fs"
    and "can_write fs"
  shows "\<exists>fs'. save_settings s fs = Inr fs' \<and> load_settings fs' = load_settings fs"
  using assms by (simp add: save_settings_def ensure_config_dir_def Let_def load_settings_def)

text \<open>
  C7.  Saving a settings record and loading it again, the file written without
  corruption, should give the record that was saved, with every unbound control still
  unbound.  The code does not do so when the configuration directory cannot be made:
  the record with the sound off and the reset action unbound is written whole to the
  fallback file, and the load that follows returns the defaults, with the sound on and
  the reset action bound to its default key.
\<close>

theorem settings_saved_to_fallback_not_reloaded:
  "save_settings unbound_reset_settings no_primary_filesystem
     = Inr (no_primary_filesystem
              \<lparr>fallback_file := Some (Pickled (PDict unbound_reset_settings))\<rparr>)
   \<and> load_settings (no_primary_filesystem
              \<lparr>fallback_file := Some (Pickled (PDict unbound_reset_settings))\<rparr>)
       \<noteq> unbound_reset_settings
   \<and> unbound_reset_settings ''sound'' = Some (PBool False)
   \<and> load_settings (no_primary_filesystem
              \<lparr>fallback_file := Some (Pickled (PDict unbound_reset_settings))\<rparr>) ''sound''
       = Some (PBool True)
   \<and> controls_of unbound_reset_settings ''reset'' = Some PNone
   \<and> controls_of (load_settings (no_primary_filesystem
              \<lparr>fallback_file := Some (Pickled (PDict unbound_reset_settings))\<rparr>)) ''reset''
       = Some (PInt K_r)"
proof -
  let ?fs = "no_primary_filesystem\<lparr>fallback_file := Some (Pickled (PDict unbound_reset_settings))\<rparr>"
  have sv: "save_settings unbound_reset_settings no_primary_filesystem = Inr ?fs"
    by (simp add: save_settings_def ensure_config_dir_def no_primary_filesystem_def Let_def)
  have ld: "load_settings ?fs = DEFAULT_SETTINGS(''controls'' \<mapsto> PDict DEFAULT_CONTROLS)"
    by (simp add: load_settings_def no_primary_filesystem_def)
  have s1: "unbound_reset_settings ''sound'' = Some (PBool False)"
    by (simp add: unbound_reset_settings_def)
  have s2: "load_settings ?fs ''sound'' = Some (PBool True)"
    by (simp add: ld DEFAULT_SETTINGS_def)
  have ne: "load_settings ?fs \<noteq> unbound_reset_settings"
  proof
    assume "load_settings ?fs = unbound_reset_settings"
    then have "load_settings ?fs ''sound'' = unbound_reset_settings ''sound''" by simp
    with s1 s2 show False by simp
  qed
  have c1: "controls_of unbound_reset_settings ''reset'' = Some PNone"
    by (simp add: controls_of_def unbound_reset_settings_def)
  have c2: "controls_of (load_settings ?fs) ''reset'' = Some (PInt K_r)"
    by (simp add: ld controls_of_def DEFAULT_CONTROLS_def)
  from sv ne s1 s2 c1 c2 show ?thesis by simp
qed

end
